theory Spec2Isabelle
  imports Complex_Main "HOL-Library.Multiset" "HOL-Library.Product_Lexorder"
begin

section \<open>Values of the Python program\<close>

text \<open>
  A Python \<open>str\<close> is a sequence of Unicode code points; \<open>str.strip()\<close> removes the
  characters for which \<open>str.isspace\<close> holds, and that set reaches beyond one byte, so a
  string is a list of code points here. \<open>ascii\<close> writes an ASCII literal.
\<close>

type_synonym py_str = "nat list"

definition ascii :: "string \<Rightarrow> py_str" where
  "ascii s = map of_char s"

text \<open>
  \<open>datetime.date\<close>: year, month, day. The order of dates is the lexicographic order of
  the triple.
\<close>

type_synonym date = "nat \<times> nat \<times> nat"

text \<open>
  A finite Python \<open>float\<close> is the rational number it denotes (every binary64 value is a
  dyadic rational). Not-a-number and the infinities are outside the model.
\<close>

type_synonym py_float = rat

definition py_isspace :: "nat \<Rightarrow> bool" where
  "py_isspace c \<longleftrightarrow>
     (9 \<le> c \<and> c \<le> 13) \<or> (28 \<le> c \<and> c \<le> 32) \<or> c = 133 \<or> c = 160 \<or> c = 5760 \<or>
     (8192 \<le> c \<and> c \<le> 8202) \<or> c = 8232 \<or> c = 8233 \<or> c = 8239 \<or> c = 8287 \<or>
     c = 12288"

definition strip :: "py_str \<Rightarrow> py_str" where
  "strip s = rev (dropWhile py_isspace (rev (dropWhile py_isspace s)))"

text \<open>\<open>s or None\<close> on a string: the empty string is falsy.\<close>

definition or_None :: "py_str \<Rightarrow> py_str option" where
  "or_None s = (if s = [] then None else Some s)"

text \<open>\<open>x or 0\<close> on a number that may be \<open>None\<close>: \<open>None\<close> and zero are falsy.\<close>

definition or_0 :: "py_float option \<Rightarrow> py_float" where
  "or_0 x = (case x of None \<Rightarrow> 0 | Some v \<Rightarrow> if v = 0 then 0 else v)"

definition round_half_even :: "rat \<Rightarrow> int" where
  "round_half_even x =
     (let f = \<lfloor>x\<rfloor>; d = x - of_int f
      in if d < 1 / 2 then f
         else if 1 / 2 < d then f + 1
         else if even f then f else f + 1)"

text \<open>
  \<open>round(x, 2)\<close> rounds the exact value of the float to two decimals, ties to even, and
  returns the float nearest to the decimal found. Below \<open>2 ^ 46\<close> in magnitude the floats
  lie less than a cent apart: the float returned prints (\<open>repr\<close>, which is also what the
  database driver sends) as that decimal again, and the decimal stands for it here. From
  \<open>2 ^ 46\<close> on the floats lie more than a cent apart, and the float nearest to the
  decimal is the argument itself.
\<close>

definition py_round2 :: "py_float \<Rightarrow> py_float" where
  "py_round2 x =
     (if \<bar>x\<bar> < 2 ^ 46 then of_int (round_half_even (x * 100)) / 100 else x)"

section \<open>The fixed vocabularies\<close>

definition SERVICE_TYPES :: "py_str list" where
  "SERVICE_TYPES =
     [ascii ''TRANSPORTE'', ascii ''HOSPEDAGEM'', ascii ''PASSAGEM AEREA'', ascii ''SEGURO'']"

definition AIRLINES :: "py_str list" where
  "AIRLINES =
     [ascii ''AIR FRANCE'', ascii ''AMERICAN AIRLINES'', ascii ''AZUL'', ascii ''DELTA'',
      ascii ''GOL'', ascii ''LATAM AIRLINES'', ascii ''UNITED AIRLINES'']"

definition COST_CENTERS :: "py_str list" where
  "COST_CENTERS =
     [ascii ''N/A'', ascii ''ADM-RATEIO'', ascii ''FINANCEIRO'', ascii ''G. GERAL'',
      ascii ''VENDAS'', ascii ''RH'', ascii ''OPS-RATEIO'']"

definition STATUSES :: "py_str list" where
  "STATUSES = [ascii ''CANCELADA'', ascii ''ATENDIDA'', ascii ''EM ABERTO'']"

text \<open>The last letter of the eighth supplier is U+00C9.\<close>

definition SUPPLIERS :: "py_str list" where
  "SUPPLIERS =
     [ascii ''LOCARIO'', ascii ''RICKER'', ascii ''MAX MOBILIDADE'', ascii ''RIOMAR'',
      ascii ''HOTEL ROYAL REGENCY'', ascii ''IBIS BOTAFOGO'', ascii ''COPASTUR'',
      ascii ''ROYAL ATLANTICA MACA'' @ [201], ascii ''FOUR POINTS'', ascii ''MONREALE'']"

text \<open>The third label holds U+00E7.\<close>

definition MONTH_CHOICES :: "(int \<times> py_str) list" where
  "MONTH_CHOICES =
     [(1, ascii ''01 - Janeiro''), (2, ascii ''02 - Fevereiro''),
      (3, ascii ''03 - Mar'' @ [231] @ ascii ''o''), (4, ascii ''04 - Abril''),
      (5, ascii ''05 - Maio''), (6, ascii ''06 - Junho''), (7, ascii ''07 - Julho''),
      (8, ascii ''08 - Agosto''), (9, ascii ''09 - Setembro''), (10, ascii ''10 - Outubro''),
      (11, ascii ''11 - Novembro''), (12, ascii ''12 - Dezembro'')]"

section \<open>The payload\<close>

text \<open>
  The dictionary that \<open>build_payload\<close> returns has a fixed set of eighteen keys; it is a
  record with one field for each key. There is no key for the total cost.
\<close>

record payload =
  p_service_type :: py_str
  p_control :: py_str
  p_issue_date :: date
  p_issuer :: py_str
  p_airline :: "py_str option"
  p_departure_date :: "date option"
  p_month_number :: int
  p_origin :: "py_str option"
  p_destination :: "py_str option"
  p_user_name :: "py_str option"
  p_reason :: "py_str option"
  p_cost_center :: "py_str option"
  p_service_cost :: py_float
  p_fee :: py_float
  p_status :: "py_str option"
  p_supplier :: "py_str option"
  p_nf_issue_date :: "date option"
  p_nf_number :: "py_str option"

definition build_payload ::
  "py_str \<Rightarrow> py_str \<Rightarrow> date \<Rightarrow> py_str \<Rightarrow> py_str \<Rightarrow> date option \<Rightarrow> int \<Rightarrow> py_str \<Rightarrow>
   py_str \<Rightarrow> py_str \<Rightarrow> py_str \<Rightarrow> py_str \<Rightarrow> py_float option \<Rightarrow> py_float option \<Rightarrow>
   py_str \<Rightarrow> py_str \<Rightarrow> date option \<Rightarrow> py_str \<Rightarrow> payload" where
  "build_payload service_type control issue_date issuer airline departure_date month_number
     origin destination user_name reason cost_center service_cost fee status supplier
     nf_issue_date nf_number =
   \<lparr> p_service_type = service_type,
     p_control = strip control,
     p_issue_date = issue_date,
     p_issuer = strip issuer,
     p_airline = or_None airline,
     p_departure_date = departure_date,
     p_month_number = month_number,
     p_origin = or_None (strip origin),
     p_destination = or_None (strip destination),
     p_user_name = or_None (strip user_name),
     p_reason = or_None (strip reason),
     p_cost_center = or_None cost_center,
     p_service_cost = py_round2 (or_0 service_cost),
     p_fee = py_round2 (or_0 fee),
     p_status = or_None status,
     p_supplier = or_None supplier,
     p_nf_issue_date = nf_issue_date,
     p_nf_number = or_None (strip nf_number) \<rparr>"

section \<open>The table \<open>travel_services\<close>\<close>

text \<open>
  One field for each column of the \<open>CREATE TABLE\<close> statement in \<open>ensure_table\<close>, in its
  order. A column declared \<open>NOT NULL\<close> holds a value, any other column an option
  (\<open>None\<close> is \<open>NULL\<close>). A \<open>NUMERIC(12,2)\<close> value is the rational it denotes;
  \<open>created_at\<close> is a point in time counted in microseconds.
\<close>

record travel_service =
  row_id :: int
  service_type :: py_str
  control :: py_str
  issue_date :: date
  issuer :: py_str
  airline :: "py_str option"
  departure_date :: "date option"
  month_number :: int
  origin :: "py_str option"
  destination :: "py_str option"
  user_name :: "py_str option"
  reason :: "py_str option"
  cost_center :: "py_str option"
  service_cost :: "rat option"
  fee :: "rat option"
  total_cost :: "rat option"
  status :: "py_str option"
  supplier :: "py_str option"
  nf_issue_date :: "date option"
  nf_number :: "py_str option"
  created_at :: "int option"

text \<open>The rows in storage order, and the last value of the sequence behind \<open>id SERIAL\<close>.\<close>

record table =
  rows :: "travel_service list"
  id_seq :: int

definition empty_table :: table where
  "empty_table = \<lparr> rows = [], id_seq = 0 \<rparr>"

datatype db_error =
  UndefinedTable | UniqueViolation | StringDataRightTruncation | NumericValueOutOfRange

subsection \<open>Column types\<close>

text \<open>
  \<open>VARCHAR(n)\<close> counts characters. A longer value is an error unless the characters
  beyond the \<open>n\<close>-th are all spaces, and then it is cut to \<open>n\<close> characters.
\<close>

definition varchar_fits :: "nat \<Rightarrow> py_str \<Rightarrow> bool" where
  "varchar_fits n s = list_all (\<lambda>c. c = 32) (drop n s)"

definition varchar_opt_fits :: "nat \<Rightarrow> py_str option \<Rightarrow> bool" where
  "varchar_opt_fits n v = (case v of None \<Rightarrow> True | Some s \<Rightarrow> varchar_fits n s)"

definition smallint_fits :: "int \<Rightarrow> bool" where
  "smallint_fits n \<longleftrightarrow> - 32768 \<le> n \<and> n \<le> 32767"

text \<open>\<open>NUMERIC(12,2)\<close> rounds to two decimals, ties away from zero, and holds ten digits
  before the point.\<close>

definition round_half_away :: "rat \<Rightarrow> int" where
  "round_half_away x = (if 0 \<le> x then \<lfloor>x + 1 / 2\<rfloor> else - \<lfloor>- x + 1 / 2\<rfloor>)"

definition numeric_12_2 :: "rat \<Rightarrow> rat" where
  "numeric_12_2 x = of_int (round_half_away (x * 100)) / 100"

definition numeric_fits :: "rat \<Rightarrow> bool" where
  "numeric_fits x \<longleftrightarrow> \<bar>numeric_12_2 x\<bar> < 10 ^ 10"

text \<open>
  The values of a payload as the column types store them, or the error of the first
  family of columns that refuses its value. No column declared \<open>NOT NULL\<close> can be refused
  for a payload: its field is never \<open>None\<close>.
\<close>

definition coerce :: "payload \<Rightarrow> db_error + payload" where
  "coerce p =
     (if \<not> (varchar_fits 32 (p_service_type p) \<and> varchar_fits 64 (p_control p) \<and>
             varchar_fits 64 (p_issuer p) \<and> varchar_opt_fits 64 (p_airline p) \<and>
             varchar_opt_fits 64 (p_origin p) \<and> varchar_opt_fits 64 (p_destination p) \<and>
             varchar_opt_fits 64 (p_user_name p) \<and> varchar_opt_fits 32 (p_cost_center p) \<and>
             varchar_opt_fits 32 (p_status p) \<and> varchar_opt_fits 64 (p_supplier p) \<and>
             varchar_opt_fits 64 (p_nf_number p))
      then Inl StringDataRightTruncation
      else if \<not> (smallint_fits (p_month_number p) \<and> numeric_fits (p_service_cost p) \<and>
                  numeric_fits (p_fee p))
      then Inl NumericValueOutOfRange
      else Inr (p\<lparr> p_service_type := take 32 (p_service_type p),
                    p_control := take 64 (p_control p),
                    p_issuer := take 64 (p_issuer p),
                    p_airline := map_option (take 64) (p_airline p),
                    p_origin := map_option (take 64) (p_origin p),
                    p_destination := map_option (take 64) (p_destination p),
                    p_user_name := map_option (take 64) (p_user_name p),
                    p_cost_center := map_option (take 32) (p_cost_center p),
                    p_service_cost := numeric_12_2 (p_service_cost p),
                    p_fee := numeric_12_2 (p_fee p),
                    p_status := map_option (take 32) (p_status p),
                    p_supplier := map_option (take 64) (p_supplier p),
                    p_nf_number := map_option (take 64) (p_nf_number p) \<rparr>))"

subsection \<open>The generated column\<close>

definition COALESCE :: "rat option \<Rightarrow> rat \<Rightarrow> rat" where
  "COALESCE v d = (case v of None \<Rightarrow> d | Some x \<Rightarrow> x)"

text \<open>\<open>GENERATED ALWAYS AS (COALESCE(service_cost,0)+COALESCE(fee,0)) STORED\<close>: the
  database computes the column whenever it writes a row.\<close>

definition generated_total_cost :: "travel_service \<Rightarrow> rat" where
  "generated_total_cost r = COALESCE (service_cost r) 0 + COALESCE (fee r) 0"

definition regenerate :: "travel_service \<Rightarrow> travel_service" where
  "regenerate r = r\<lparr> total_cost := Some (generated_total_cost r) \<rparr>"

text \<open>The sum of two \<open>NUMERIC(12,2)\<close> values has two decimals; it must fit the column.\<close>

definition total_fits :: "travel_service \<Rightarrow> bool" where
  "total_fits r \<longleftrightarrow> \<bar>generated_total_cost r\<bar> < 10 ^ 10"

subsection \<open>The four statements\<close>

text \<open>\<open>INSERT\<close>: the eighteen named columns come from the parameters, \<open>id\<close> from the
  sequence, \<open>created_at\<close> from \<open>NOW()\<close>, \<open>total_cost\<close> from its expression.\<close>

definition inserted_row :: "int \<Rightarrow> int \<Rightarrow> payload \<Rightarrow> travel_service" where
  "inserted_row i now q = regenerate
     \<lparr> row_id = i,
       service_type = p_service_type q,
       control = p_control q,
       issue_date = p_issue_date q,
       issuer = p_issuer q,
       airline = p_airline q,
       departure_date = p_departure_date q,
       month_number = p_month_number q,
       origin = p_origin q,
       destination = p_destination q,
       user_name = p_user_name q,
       reason = p_reason q,
       cost_center = p_cost_center q,
       service_cost = Some (p_service_cost q),
       fee = Some (p_fee q),
       total_cost = None,
       status = p_status q,
       supplier = p_supplier q,
       nf_issue_date = p_nf_issue_date q,
       nf_number = p_nf_number q,
       created_at = Some now \<rparr>"

definition sql_insert :: "table \<Rightarrow> int \<Rightarrow> payload \<Rightarrow> db_error + table" where
  "sql_insert t now p =
     (case coerce p of
        Inl e \<Rightarrow> Inl e
      | Inr q \<Rightarrow>
          (let r = inserted_row (id_seq t + 1) now q
           in if \<not> total_fits r then Inl NumericValueOutOfRange
              else if row_id r \<in> set (map row_id (rows t)) then Inl UniqueViolation
              else Inr (t\<lparr> rows := rows t @ [r], id_seq := id_seq t + 1 \<rparr>)))"

text \<open>\<open>UPDATE ... SET\<close> the eighteen columns \<open>WHERE id=:id\<close>.\<close>

definition updated_row :: "payload \<Rightarrow> travel_service \<Rightarrow> travel_service" where
  "updated_row q r = regenerate
     (r\<lparr> service_type := p_service_type q,
         control := p_control q,
         issue_date := p_issue_date q,
         issuer := p_issuer q,
         airline := p_airline q,
         departure_date := p_departure_date q,
         month_number := p_month_number q,
         origin := p_origin q,
         destination := p_destination q,
         user_name := p_user_name q,
         reason := p_reason q,
         cost_center := p_cost_center q,
         service_cost := Some (p_service_cost q),
         fee := Some (p_fee q),
         status := p_status q,
         supplier := p_supplier q,
         nf_issue_date := p_nf_issue_date q,
         nf_number := p_nf_number q \<rparr>)"

definition sql_update :: "table \<Rightarrow> int \<Rightarrow> payload \<Rightarrow> db_error + table" where
  "sql_update t record_id p =
     (case coerce p of
        Inl e \<Rightarrow> Inl e
      | Inr q \<Rightarrow>
          (if list_ex (\<lambda>r. row_id r = record_id \<and> \<not> total_fits (updated_row q r)) (rows t)
           then Inl NumericValueOutOfRange
           else Inr (t\<lparr> rows :=
                  map (\<lambda>r. if row_id r = record_id then updated_row q r else r) (rows t) \<rparr>)))"

text \<open>\<open>DELETE FROM travel_services WHERE id = ANY(:ids)\<close>.\<close>

definition sql_delete :: "table \<Rightarrow> int list \<Rightarrow> table" where
  "sql_delete t ids = t\<lparr> rows := filter (\<lambda>r. row_id r \<notin> set ids) (rows t) \<rparr>"

text \<open>\<open>SELECT ... ORDER BY issue_date DESC, id DESC\<close>.\<close>

definition order_key :: "travel_service \<Rightarrow> date \<times> int" where
  "order_key r = (issue_date r, row_id r)"

definition sql_select :: "table \<Rightarrow> travel_service list" where
  "sql_select t = rev (sort_key order_key (rows t))"

section \<open>The record store\<close>

text \<open>
  The engine is the database behind the connection: the table, absent until it is
  created, and the statements executed so far. Each function of the record store runs
  one statement in a transaction of its own, so a statement that fails leaves the table
  as it was.
\<close>

datatype statement = CREATE_TABLE | SELECT | INSERT | UPDATE | DELETE

record engine =
  travel_services :: "table option"
  executed :: "statement list"

definition execute :: "statement \<Rightarrow> engine \<Rightarrow> engine" where
  "execute stmt e = e\<lparr> executed := executed e @ [stmt] \<rparr>"

definition ensure_table :: "engine \<Rightarrow> engine" where
  "ensure_table e =
     execute CREATE_TABLE
       (case travel_services e of
          None \<Rightarrow> e\<lparr> travel_services := Some empty_table \<rparr>
        | Some t \<Rightarrow> e)"

text \<open>
  \<open>fetch_dataframe\<close> returns a pandas frame; the model gives the rows the frame is built
  from, in the order of the query, with the values the database holds. The frame itself
  holds the \<open>NUMERIC\<close> columns as floats and, the query being read without
  \<open>parse_dates\<close>, the \<open>DATE\<close> columns as object columns of \<open>datetime.date\<close>: the
  floats are not modelled, and the view below takes the date cells for what they are.
\<close>

definition fetch_dataframe :: "engine \<Rightarrow> (db_error + travel_service list) \<times> engine" where
  "fetch_dataframe e =
     (case travel_services e of
        None \<Rightarrow> (Inl UndefinedTable, execute SELECT e)
      | Some t \<Rightarrow> (Inr (sql_select t), execute SELECT e))"

definition insert_record :: "engine \<Rightarrow> int \<Rightarrow> payload \<Rightarrow> db_error option \<times> engine" where
  "insert_record e now payload =
     (case travel_services e of
        None \<Rightarrow> (Some UndefinedTable, execute INSERT e)
      | Some t \<Rightarrow>
          (case sql_insert t now payload of
             Inl err \<Rightarrow> (Some err, execute INSERT e)
           | Inr t' \<Rightarrow> (None, execute INSERT (e\<lparr> travel_services := Some t' \<rparr>))))"

definition update_record :: "engine \<Rightarrow> int \<Rightarrow> payload \<Rightarrow> db_error option \<times> engine" where
  "update_record e record_id payload =
     (case travel_services e of
        None \<Rightarrow> (Some UndefinedTable, execute UPDATE e)
      | Some t \<Rightarrow>
          (case sql_update t record_id payload of
             Inl err \<Rightarrow> (Some err, execute UPDATE e)
           | Inr t' \<Rightarrow> (None, execute UPDATE (e\<lparr> travel_services := Some t' \<rparr>))))"

definition delete_records :: "engine \<Rightarrow> int list \<Rightarrow> db_error option \<times> engine" where
  "delete_records e ids =
     (case travel_services e of
        None \<Rightarrow> (Some UndefinedTable, execute DELETE e)
      | Some t \<Rightarrow> (None, execute DELETE (e\<lparr> travel_services := Some (sql_delete t ids) \<rparr>)))"

section \<open>The form controller\<close>

text \<open>The values of the widgets of a form when it is submitted.\<close>

record form =
  f_service_type :: py_str
  f_control :: py_str
  f_issue_date :: date
  f_issuer :: py_str
  f_airline :: py_str
  f_departure_date :: "date option"
  f_month_number :: int
  f_origin :: py_str
  f_destination :: py_str
  f_user_name :: py_str
  f_reason :: py_str
  f_cost_center :: py_str
  f_service_cost :: py_float
  f_fee :: py_float
  f_status :: py_str
  f_supplier :: py_str
  f_nf_issue_date :: "date option"
  f_nf_number :: py_str

text \<open>What a tab shows: one constructor for each message of the source.\<close>

datatype shown =
  Error_Controle_obrigatorio
  | Success_Registro_salvo
  | Info_Custo_total py_float
  | Error_Erro_ao_salvar db_error
  | Rerun

definition payload_of_form :: "form \<Rightarrow> payload" where
  "payload_of_form f =
     build_payload (f_service_type f) (f_control f) (f_issue_date f) (f_issuer f)
       (f_airline f) (f_departure_date f) (f_month_number f) (f_origin f)
       (f_destination f) (f_user_name f) (f_reason f) (f_cost_center f)
       (Some (f_service_cost f)) (Some (f_fee f)) (f_status f) (f_supplier f)
       (f_nf_issue_date f) (f_nf_number f)"

text \<open>
  \<open>show_create_tab\<close> after the form is drawn: \<open>submitted\<close> is the value of the submit
  button, \<open>now\<close> the time at the database when a statement runs.
\<close>

definition show_create_tab :: "engine \<Rightarrow> int \<Rightarrow> bool \<Rightarrow> form \<Rightarrow> shown list \<times> engine" where
  "show_create_tab e now submitted f =
     (if submitted then
        (if strip (f_control f) = [] then ([Error_Controle_obrigatorio], e)
         else
           (let payload = payload_of_form f
            in case insert_record e now payload of
                 (None, e') \<Rightarrow>
                   ([Success_Registro_salvo,
                     Info_Custo_total (p_service_cost payload + p_fee payload), Rerun], e')
               | (Some exc, e') \<Rightarrow> ([Error_Erro_ao_salvar exc], e')))
      else ([], e))"

section \<open>The view and its filters\<close>

text \<open>
  A data frame is the list of its rows. \<open>col.isin(values)\<close> and the comparisons give a
  mask, one truth value for each row (a \<open>NULL\<close> is in no list), and \<open>frame[mask]\<close> keeps
  the rows whose value is true.
\<close>

definition isin :: "'a option list \<Rightarrow> 'a list \<Rightarrow> bool list" where
  "isin col vals = map (\<lambda>v. case v of None \<Rightarrow> False | Some x \<Rightarrow> x \<in> set vals) col"

definition boolean_index :: "'r list \<Rightarrow> bool list \<Rightarrow> 'r list" where
  "boolean_index frame keep = map fst (filter snd (zip frame keep))"

definition mask_and :: "bool list \<Rightarrow> bool list \<Rightarrow> bool list" where
  "mask_and a b = map (\<lambda>(x, y). x \<and> y) (zip a b)"

datatype py_exception = ValueError | TypeError | AttributeError | SQLAlchemyError db_error

text \<open>
  The cells that hold a day: a \<open>datetime.date\<close>, as in the date columns of the frame,
  or a \<open>pd.Timestamp\<close> at midnight, as \<open>pd.to_datetime\<close> makes of a date. Two cells of
  the same kind compare as dates; an ordering comparison between a \<open>datetime.date\<close>
  and a \<open>pd.Timestamp\<close> raises \<open>TypeError\<close>.
\<close>

datatype py_date = PyDate date | Timestamp date

definition to_datetime :: "date \<Rightarrow> py_date" where
  "to_datetime d = Timestamp d"

fun ge_cell :: "py_date \<Rightarrow> py_date \<Rightarrow> py_exception + bool" where
  "ge_cell (PyDate a) (PyDate b) = Inr (b \<le> a)"
| "ge_cell (Timestamp a) (Timestamp b) = Inr (b \<le> a)"
| "ge_cell (PyDate a) (Timestamp b) = Inl TypeError"
| "ge_cell (Timestamp a) (PyDate b) = Inl TypeError"

fun le_cell :: "py_date \<Rightarrow> py_date \<Rightarrow> py_exception + bool" where
  "le_cell (PyDate a) (PyDate b) = Inr (a \<le> b)"
| "le_cell (Timestamp a) (Timestamp b) = Inr (a \<le> b)"
| "le_cell (PyDate a) (Timestamp b) = Inl TypeError"
| "le_cell (Timestamp a) (PyDate b) = Inl TypeError"

text \<open>A column of objects is compared cell by cell, and the first cell that raises ends
  the comparison; an empty column gives an empty mask.\<close>

fun compare_column :: "('a \<Rightarrow> py_exception + bool) \<Rightarrow> 'a list \<Rightarrow> py_exception + bool list" where
  "compare_column f [] = Inr []"
| "compare_column f (x # xs) =
     (case f x of
        Inl exc \<Rightarrow> Inl exc
      | Inr b \<Rightarrow>
          (case compare_column f xs of
             Inl exc \<Rightarrow> Inl exc
           | Inr bs \<Rightarrow> Inr (b # bs)))"

definition issue_date_column :: "travel_service list \<Rightarrow> py_date list" where
  "issue_date_column frame = map (\<lambda>r. PyDate (issue_date r)) frame"

definition filter_status :: "py_str list \<Rightarrow> travel_service list \<Rightarrow> travel_service list" where
  "filter_status selected_status filtered =
     (if selected_status \<noteq> [] then
        boolean_index filtered (isin (map status filtered) selected_status)
      else filtered)"

definition filter_months :: "py_str list \<Rightarrow> travel_service list \<Rightarrow> travel_service list" where
  "filter_months selected_months filtered =
     (if selected_months \<noteq> [] then
        (let month_numbers =
               map fst (filter (\<lambda>choice. snd choice \<in> set selected_months) MONTH_CHOICES)
         in boolean_index filtered
              (isin (map (\<lambda>r. Some (month_number r)) filtered) month_numbers))
      else filtered)"

text \<open>
  The range picker gives \<open>None\<close> when the box is not ticked, and otherwise a tuple of the
  dates picked so far. An empty tuple is falsy; \<open>start, end = issue_range\<close> raises
  \<open>ValueError\<close> on a tuple that does not have two members.
\<close>

definition filter_issue_range ::
  "date list option \<Rightarrow> travel_service list \<Rightarrow> py_exception + travel_service list" where
  "filter_issue_range issue_range filtered =
     (case issue_range of
        None \<Rightarrow> Inr filtered
      | Some [] \<Rightarrow> Inr filtered
      | Some [start, end'] \<Rightarrow>
          (case compare_column (\<lambda>c. ge_cell c (to_datetime start))
                  (issue_date_column filtered) of
             Inl exc \<Rightarrow> Inl exc
           | Inr from_start \<Rightarrow>
               (case compare_column (\<lambda>c. le_cell c (to_datetime end'))
                       (issue_date_column filtered) of
                  Inl exc \<Rightarrow> Inl exc
                | Inr to_end \<Rightarrow> Inr (boolean_index filtered (mask_and from_start to_end))))
      | Some _ \<Rightarrow> Inl ValueError)"

definition apply_filters ::
  "py_str list \<Rightarrow> py_str list \<Rightarrow> date list option \<Rightarrow> travel_service list \<Rightarrow>
   py_exception + travel_service list" where
  "apply_filters selected_status selected_months issue_range data =
     filter_issue_range issue_range
       (filter_months selected_months (filter_status selected_status data))"

datatype view =
  Info_Nenhum_registro_cadastrado
  | Warning_Nenhum_registro_encontrado

text \<open>
  \<open>show_table_tab\<close>. The display code formats the issue date first, with
  \<open>.dt.strftime\<close>; the column is an object column, whose \<open>.dt\<close> accessor raises
  \<open>AttributeError\<close>, so a frame with rows in it never reaches the screen.
\<close>

definition show_table_tab ::
  "engine \<Rightarrow> py_str list \<Rightarrow> py_str list \<Rightarrow> date list option \<Rightarrow>
   (py_exception + view) \<times> engine" where
  "show_table_tab e selected_status selected_months issue_range =
     (case fetch_dataframe e of
        (Inl exc, e') \<Rightarrow> (Inl (SQLAlchemyError exc), e')
      | (Inr data, e') \<Rightarrow>
          (if data = [] then (Inr Info_Nenhum_registro_cadastrado, e')
           else
             (case apply_filters selected_status selected_months issue_range data of
                Inl exc \<Rightarrow> (Inl exc, e')
              | Inr filtered \<Rightarrow>
                  (if filtered = [] then (Inr Warning_Nenhum_registro_encontrado, e')
                   else (Inl AttributeError, e')))))"

section \<open>Runs of the application\<close>

text \<open>
  What the application does to the engine, one step at a time: the statements of the
  record store and the create tab. A run is a list of such steps, performed from left to
  right.
\<close>

datatype operation =
  Ensure_table
  | Fetch_dataframe
  | Insert_record int payload
  | Update_record int payload
  | Delete_records "int list"
  | Show_create_tab int bool form

fun perform :: "engine \<Rightarrow> operation \<Rightarrow> engine" where
  "perform e Ensure_table = ensure_table e"
| "perform e Fetch_dataframe = snd (fetch_dataframe e)"
| "perform e (Insert_record now payload) = snd (insert_record e now payload)"
| "perform e (Update_record record_id payload) = snd (update_record e record_id payload)"
| "perform e (Delete_records ids) = snd (delete_records e ids)"
| "perform e (Show_create_tab now submitted f) = snd (show_create_tab e now submitted f)"

section \<open>Properties of rows and of payload fields\<close>

text \<open>The stored total of a row is the value of the expression of the generated column.\<close>

definition total_cost_matches :: "travel_service \<Rightarrow> bool" where
  "total_cost_matches r \<longleftrightarrow>
     total_cost r = Some (COALESCE (service_cost r) 0 + COALESCE (fee r) 0)"

definition stored_totals_match :: "engine \<Rightarrow> bool" where
  "stored_totals_match e =
     (case travel_services e of None \<Rightarrow> True | Some t \<Rightarrow> list_all total_cost_matches (rows t))"

text \<open>
  Rounding to two decimals, ties to even: \<open>v\<close> is a whole number of cents, at most half
  a cent from \<open>x\<close>, and an even number of cents when it is exactly half a cent away.
\<close>

definition rounded_to_cents :: "rat \<Rightarrow> rat \<Rightarrow> bool" where
  "rounded_to_cents x v \<longleftrightarrow>
     of_int \<lfloor>v * 100\<rfloor> = v * 100 \<and> \<bar>v * 100 - x * 100\<bar> \<le> 1 / 2 \<and>
     (\<bar>v * 100 - x * 100\<bar> = 1 / 2 \<longrightarrow> even \<lfloor>v * 100\<rfloor>)"

text \<open>A string has no white space at either end; an optional field is null or holds a
  string that is not empty.\<close>

definition trimmed :: "py_str \<Rightarrow> bool" where
  "trimmed s \<longleftrightarrow> s = [] \<or> (\<not> py_isspace (hd s) \<and> \<not> py_isspace (last s))"

definition null_or_trimmed :: "py_str option \<Rightarrow> bool" where
  "null_or_trimmed v = (case v of None \<Rightarrow> True | Some s \<Rightarrow> s \<noteq> [] \<and> trimmed s)"

definition null_or_nonempty :: "py_str option \<Rightarrow> bool" where
  "null_or_nonempty v = (case v of None \<Rightarrow> True | Some s \<Rightarrow> s \<noteq> [])"

section \<open>Sample data\<close>

text \<open>
  The float that Python reads from the literal \<open>100.005\<close>: the binary64 value nearest to
  the decimal, \<open>7037226261487288 / 2 ^ 46\<close>.
\<close>

definition float_100_005 :: py_float where
  "float_100_005 = 879653282685911 / 8796093022208"

definition sample_row :: "int \<Rightarrow> date \<Rightarrow> py_str option \<Rightarrow> travel_service" where
  "sample_row i d st =
     \<lparr> row_id = i, service_type = ascii ''SEGURO'', control = ascii ''ABC123'',
       issue_date = d, issuer = ascii ''ANA'', airline = None, departure_date = None,
       month_number = 3, origin = None, destination = None, user_name = None,
       reason = None, cost_center = Some (ascii ''RH''), service_cost = Some 100,
       fee = Some 50, total_cost = Some 150, status = st,
       supplier = Some (ascii ''RIOMAR''), nf_issue_date = None, nf_number = None,
       created_at = Some 0 \<rparr>"

definition sample_engine :: "travel_service list \<Rightarrow> engine" where
  "sample_engine rs =
     \<lparr> travel_services = Some \<lparr> rows = rs, id_seq = 10 \<rparr>, executed = [CREATE_TABLE] \<rparr>"

definition sample_form :: "py_str \<Rightarrow> py_float \<Rightarrow> form" where
  "sample_form ctl cost =
     \<lparr> f_service_type = ascii ''SEGURO'', f_control = ctl, f_issue_date = (2024, 3, 1),
       f_issuer = ascii ''ANA'', f_airline = [], f_departure_date = None,
       f_month_number = 3, f_origin = [], f_destination = [], f_user_name = [],
       f_reason = [], f_cost_center = ascii ''RH'', f_service_cost = cost, f_fee = 50,
       f_status = ascii ''EM ABERTO'', f_supplier = ascii ''RIOMAR'',
       f_nf_issue_date = None, f_nf_number = [] \<rparr>"

definition no_table :: engine where
  "no_table = \<lparr> travel_services = None, executed = [] \<rparr>"

text \<open>A call of \<open>build_payload\<close> with white space around two of its strings.\<close>

definition normalized_sample :: payload where
  "normalized_sample =
     build_payload (ascii ''SEGURO'') (ascii '' ABC123 '') (2024, 3, 2) (ascii ''ANA'')
       (ascii ''GOL'') None 3 (ascii ''  Rio '') [] [] [] (ascii ''RH'')
       (Some (1999 / 1000)) None (ascii ''EM ABERTO'') (ascii ''RIOMAR'') None []"

section \<open>Lemmas\<close>

lemma boolean_index_map: "boolean_index xs (map P xs) = filter P xs"
  by (induction xs) (simp_all add: boolean_index_def)

lemma mask_and_map: "mask_and (map P xs) (map Q xs) = map (\<lambda>x. P x \<and> Q x) xs"
  by (induction xs) (simp_all add: mask_and_def)

lemma isin_map: "isin (map f xs) vals = map (\<lambda>x. \<exists>v \<in> set vals. f x = Some v) xs"
  by (induction xs) (auto simp: isin_def split: option.splits)

lemma dropWhile_rev_all: "dropWhile P (rev xs) = [] \<longleftrightarrow> list_all P xs"
  by (simp add: dropWhile_eq_Nil_conv list_all_iff)

lemma dropWhile_all_Nil: "\<forall>x \<in> set (dropWhile P s). P x \<Longrightarrow> dropWhile P s = []"
  using hd_dropWhile [of P s] hd_in_set [of "dropWhile P s"] by blast

lemma strip_eq_Nil: "strip s = [] \<longleftrightarrow> list_all py_isspace s"
proof
  assume "strip s = []"
  then have "\<forall>x \<in> set (dropWhile py_isspace s). py_isspace x"
    by (simp add: strip_def dropWhile_eq_Nil_conv)
  then have "dropWhile py_isspace s = []" by (rule dropWhile_all_Nil)
  then show "list_all py_isspace s"
    by (simp add: dropWhile_eq_Nil_conv list_all_iff)
next
  assume "list_all py_isspace s"
  then have "dropWhile py_isspace s = []"
    by (simp add: dropWhile_eq_Nil_conv list_all_iff)
  then show "strip s = []"
    by (simp add: strip_def del: dropWhile_eq_Nil_conv)
qed

lemma strip_split:
  "dropWhile py_isspace s =
     strip s @ rev (takeWhile py_isspace (rev (dropWhile py_isspace s)))"
proof -
  let ?d = "dropWhile py_isspace s"
  have "rev (rev ?d) = rev (takeWhile py_isspace (rev ?d) @ dropWhile py_isspace (rev ?d))"
    by (simp only: takeWhile_dropWhile_id)
  then show ?thesis
    by (simp only: rev_append rev_rev_ident strip_def)
qed

lemma strip_hd: assumes "strip s \<noteq> []" shows "\<not> py_isspace (hd (strip s))"
proof -
  let ?d = "dropWhile py_isspace s"
  have d: "?d \<noteq> []"
  proof
    assume "?d = []"
    then have "strip s = []" by (simp add: strip_def del: dropWhile_eq_Nil_conv)
    with assms show False by simp
  qed
  then have h: "\<not> py_isspace (hd ?d)" by (rule hd_dropWhile)
  have "hd ?d = hd (strip s @ rev (takeWhile py_isspace (rev ?d)))"
    using strip_split [of s] by simp
  also have "\<dots> = hd (strip s)" using assms by simp
  finally show ?thesis using h by simp
qed

lemma strip_last: assumes "strip s \<noteq> []" shows "\<not> py_isspace (last (strip s))"
proof -
  let ?r = "rev (dropWhile py_isspace s)"
  have "dropWhile py_isspace ?r \<noteq> []" using assms by (simp add: strip_def)
  then have "\<not> py_isspace (hd (dropWhile py_isspace ?r))" by (rule hd_dropWhile)
  then show ?thesis using assms by (simp add: strip_def last_rev)
qed

lemma list_all_takeWhile: "list_all P (takeWhile P xs)"
  by (induction xs) simp_all

lemma strip_decomp:
  "\<exists>a b. s = a @ strip s @ b \<and> list_all py_isspace a \<and> list_all py_isspace b"
proof -
  let ?a = "takeWhile py_isspace s"
  let ?d = "dropWhile py_isspace s"
  let ?b = "rev (takeWhile py_isspace (rev ?d))"
  have "s = ?a @ ?d" by simp
  then have "s = ?a @ strip s @ ?b" using strip_split [of s] by simp
  moreover have "list_all py_isspace ?a" by (rule list_all_takeWhile)
  moreover have "list_all py_isspace ?b" by (simp add: list_all_takeWhile)
  ultimately show ?thesis by blast
qed

lemma round_half_even_bound: "\<bar>of_int (round_half_even x) - x\<bar> \<le> 1 / 2"
  unfolding round_half_even_def Let_def by (auto simp: abs_if not_less) linarith+

lemma py_round2_bound: "\<bar>py_round2 x - x\<bar> \<le> 1 / 200"
proof -
  have "\<bar>of_int (round_half_even (x * 100)) - x * 100\<bar> \<le> 1 / 2" by (rule round_half_even_bound)
  then show ?thesis unfolding py_round2_def by (simp add: abs_if field_simps split: if_splits)
qed

lemma round_half_even_tie:
  assumes "\<bar>of_int (round_half_even x) - x\<bar> = 1 / 2"
  shows "even (round_half_even x)"
proof -
  let ?f = "\<lfloor>x\<rfloor>"
  let ?d = "x - of_int ?f"
  have d: "0 \<le> ?d" "?d < 1" by linarith+
  show ?thesis
  proof (cases "?d < 1 / 2")
    case True
    then have r: "round_half_even x = ?f" by (simp add: round_half_even_def Let_def)
    have "\<bar>of_int ?f - x\<bar> = ?d" using d by linarith
    with assms r True show ?thesis by simp
  next
    case False
    show ?thesis
    proof (cases "1 / 2 < ?d")
      case True
      then have r: "round_half_even x = ?f + 1"
        using False by (simp add: round_half_even_def Let_def)
      have "\<bar>of_int (?f + 1) - x\<bar> = 1 - ?d" using d by simp
      with assms r True show ?thesis by simp
    next
      case nt: False
      then show ?thesis using False by (auto simp: round_half_even_def Let_def)
    qed
  qed
qed

lemma py_round2_rounded:
  assumes "\<bar>x\<bar> < 2 ^ 46"
  shows "rounded_to_cents x (py_round2 x)"
proof -
  let ?k = "round_half_even (x * 100)"
  have v: "py_round2 x * 100 = of_int ?k" using assms by (simp add: py_round2_def)
  have fl: "\<lfloor>py_round2 x * 100\<rfloor> = ?k" unfolding v by simp
  have b: "\<bar>of_int ?k - x * 100\<bar> \<le> 1 / 2" by (rule round_half_even_bound)
  have t: "\<bar>of_int ?k - x * 100\<bar> = 1 / 2 \<longrightarrow> even ?k"
    using round_half_even_tie [of "x * 100"] by blast
  show ?thesis
    unfolding rounded_to_cents_def fl unfolding v using b t by simp
qed

lemma rounded_to_cents_unique:
  assumes "rounded_to_cents x v" "rounded_to_cents x w"
  shows "v = w"
proof -
  define k where "k = \<lfloor>v * 100\<rfloor>"
  define l where "l = \<lfloor>w * 100\<rfloor>"
  note rv = assms(1) [unfolded rounded_to_cents_def]
  note rw = assms(2) [unfolded rounded_to_cents_def]
  have "of_int \<lfloor>v * 100\<rfloor> = v * 100" using rv by (rule conjunct1)
  then have k: "v * 100 = of_int k" unfolding k_def by (rule sym)
  have "of_int \<lfloor>w * 100\<rfloor> = w * 100" using rw by (rule conjunct1)
  then have l: "w * 100 = of_int l" unfolding l_def by (rule sym)
  have bk: "\<bar>of_int k - x * 100\<bar> \<le> 1 / 2"
    and tk: "\<bar>of_int k - x * 100\<bar> = 1 / 2 \<longrightarrow> even k"
    using rv unfolding k by simp_all
  have bl: "\<bar>of_int l - x * 100\<bar> \<le> 1 / 2"
    and tl: "\<bar>of_int l - x * 100\<bar> = 1 / 2 \<longrightarrow> even l"
    using rw unfolding l by simp_all
  have "\<bar>(of_int k :: rat) - of_int l\<bar> \<le> 1" using bk bl by linarith
  then have "(of_int \<bar>k - l\<bar> :: rat) \<le> of_int 1" by simp
  then have kl: "\<bar>k - l\<bar> \<le> 1" by (simp only: of_int_le_iff)
  have "k = l"
  proof (rule ccontr)
    assume ne: "k \<noteq> l"
    with kl have c: "k = l + 1 \<or> l = k + 1" by linarith
    then have "\<bar>(of_int k :: rat) - of_int l\<bar> = 1" by auto
    with bk bl have "\<bar>of_int k - x * 100\<bar> = 1 / 2 \<and> \<bar>of_int l - x * 100\<bar> = 1 / 2"
      by linarith
    with tk tl have "even k \<and> even l" by blast
    with c show False by auto
  qed
  with k l have "v * 100 = w * 100" by simp
  then show ?thesis by simp
qed

lemma py_round2_large: "2 ^ 46 \<le> \<bar>x\<bar> \<Longrightarrow> py_round2 x = x"
  by (simp add: py_round2_def)

lemma round_half_even_neg_iff: "round_half_even y < 0 \<longleftrightarrow> y < - 1 / 2"
proof
  assume "round_half_even y < 0"
  show "y < - 1 / 2"
  proof (rule ccontr)
    assume "\<not> y < - 1 / 2"
    then have y: "- 1 / 2 \<le> y" by simp
    then have f: "- 1 \<le> \<lfloor>y\<rfloor>" by (simp add: le_floor_iff)
    have "0 \<le> round_half_even y"
    proof (cases "0 \<le> \<lfloor>y\<rfloor>")
      case True
      then show ?thesis by (simp add: round_half_even_def Let_def)
    next
      case False
      with f have f1: "\<lfloor>y\<rfloor> = - 1" by linarith
      then have "1 / 2 \<le> y - of_int \<lfloor>y\<rfloor>" using y by simp
      then show ?thesis using f1 by (auto simp: round_half_even_def Let_def)
    qed
    with \<open>round_half_even y < 0\<close> show False by simp
  qed
next
  assume y: "y < - 1 / 2"
  then have f: "\<lfloor>y\<rfloor> \<le> - 1" by (simp add: floor_le_iff)
  show "round_half_even y < 0"
  proof (cases "\<lfloor>y\<rfloor> = - 1")
    case True
    then have "y - of_int \<lfloor>y\<rfloor> < 1 / 2" using y by simp
    then show ?thesis using True by (simp add: round_half_even_def Let_def)
  next
    case False
    with f have "\<lfloor>y\<rfloor> \<le> - 2" by linarith
    then show ?thesis by (simp add: round_half_even_def Let_def)
  qed
qed

lemma py_round2_negative_iff: "py_round2 x < 0 \<longleftrightarrow> x < - 1 / 200"
proof (cases "\<bar>x\<bar> < 2 ^ 46")
  case True
  have "py_round2 x < 0 \<longleftrightarrow> round_half_even (x * 100) < 0"
    using True by (simp add: py_round2_def divide_less_0_iff)
  also have "\<dots> \<longleftrightarrow> x * 100 < - 1 / 2" by (rule round_half_even_neg_iff)
  also have "\<dots> \<longleftrightarrow> x < - 1 / 200" by (simp add: field_simps)
  finally show ?thesis .
next
  case False
  then have "py_round2 x = x" by (simp add: py_round2_def)
  moreover have "x < 0 \<longleftrightarrow> x < - 1 / 200" using False by (simp add: abs_if split: if_splits)
  ultimately show ?thesis by simp
qed

lemma sql_select_mset: "mset (sql_select t) = mset (rows t)"
  by (simp add: sql_select_def)

lemma sql_select_sorted:
  "sorted_wrt (\<lambda>a b. order_key b \<le> order_key a) (sql_select t)"
proof -
  have "sorted (map order_key (sort_key order_key (rows t)))" by simp
  then have "sorted_wrt (\<lambda>a b. order_key a \<le> order_key b) (sort_key order_key (rows t))"
    by (simp add: sorted_map)
  then show ?thesis
    by (simp add: sql_select_def sorted_wrt_rev)
qed

lemma order_key_le:
  "order_key b \<le> order_key a \<longleftrightarrow>
     issue_date b < issue_date a \<or> (issue_date a = issue_date b \<and> row_id b \<le> row_id a)"
  by (auto simp: order_key_def)

lemma sample_engine_table:
  "travel_services (sample_engine rs) = Some \<lparr> rows = rs, id_seq = 10 \<rparr>"
  by (simp add: sample_engine_def)

lemma delete_sample:
  "delete_records (sample_engine [sample_row 3 (2024, 3, 1) None, sample_row 5 (2024, 3, 2) None])
     [3, 7] =
   (None, \<lparr> travel_services = Some \<lparr> rows = [sample_row 5 (2024, 3, 2) None], id_seq = 10 \<rparr>,
            executed = [CREATE_TABLE, DELETE] \<rparr>)"
  by (simp add: delete_records_def sql_delete_def execute_def sample_engine_def sample_row_def)

lemma blank_strip: "strip (f_control (sample_form (ascii ''  '') 100)) = []"
  by (simp add: sample_form_def strip_def ascii_def py_isspace_def)

lemma abc_strip: "strip (f_control (sample_form (ascii ''ABC123'') 100)) \<noteq> []"
  by (simp add: sample_form_def strip_def ascii_def py_isspace_def)

text \<open>
  Claim C2. On every state of the database in which the table exists, \<open>fetch_dataframe\<close>
  returns all the rows of the table, each as often as it is stored and none left out,
  ordered by issue date descending and, among equal issue dates, by identifier
  descending.
\<close>

theorem fetch_dataframe_all_sorted:
  assumes "travel_services e = Some t"
  shows "\<exists>rs. fst (fetch_dataframe e) = Inr rs \<and> mset rs = mset (rows t) \<and>
           length rs = length (rows t) \<and>
           sorted_wrt (\<lambda>a b. issue_date b < issue_date a \<or>
                             (issue_date a = issue_date b \<and> row_id b \<le> row_id a)) rs"
proof -
  have "fst (fetch_dataframe e) = Inr (sql_select t)"
    using assms by (simp add: fetch_dataframe_def)
  moreover have "mset (sql_select t) = mset (rows t)" by (rule sql_select_mset)
  moreover have "length (sql_select t) = length (rows t)" by (simp add: sql_select_def)
  moreover have "sorted_wrt (\<lambda>a b. issue_date b < issue_date a \<or>
                             (issue_date a = issue_date b \<and> row_id b \<le> row_id a)) (sql_select t)"
    using sql_select_sorted [of t] by (simp add: order_key_le)
  ultimately show ?thesis by blast
qed

lemma fetch_sample:
  "fst (fetch_dataframe (sample_engine
      [sample_row 1 (2024, 3, 1) None, sample_row 2 (2024, 5, 9) None,
       sample_row 3 (2024, 3, 1) None])) =
   Inr [sample_row 2 (2024, 5, 9) None, sample_row 3 (2024, 3, 1) None,
        sample_row 1 (2024, 3, 1) None]"
  by (simp add: fetch_dataframe_def sample_engine_def sql_select_def order_key_def
      sample_row_def)

theorem fetch_dataframe_all_sorted_witness:
  "travel_services (sample_engine
      [sample_row 1 (2024, 3, 1) None, sample_row 2 (2024, 5, 9) None,
       sample_row 3 (2024, 3, 1) None]) =
     Some \<lparr> rows = [sample_row 1 (2024, 3, 1) None, sample_row 2 (2024, 5, 9) None,
                   sample_row 3 (2024, 3, 1) None], id_seq = 10 \<rparr> \<and>
   fst (fetch_dataframe (sample_engine
      [sample_row 1 (2024, 3, 1) None, sample_row 2 (2024, 5, 9) None,
       sample_row 3 (2024, 3, 1) None])) =
     Inr [sample_row 2 (2024, 5, 9) None, sample_row 3 (2024, 3, 1) None,
          sample_row 1 (2024, 3, 1) None]"
  using fetch_dataframe_all_sorted [OF sample_engine_table] fetch_sample sample_engine_table
  by simp

text \<open>
  Claim C8. \<open>delete_records\<close> raises no error, whether or not an identifier of the list
  exists; the rows it leaves are exactly the rows whose identifier is not in the list,
  unchanged, and the list read afterwards holds exactly those.
\<close>

theorem delete_records_exact:
  assumes "travel_services e = Some t"
  shows "fst (delete_records e ids) = None \<and>
         (\<exists>t'. travel_services (snd (delete_records e ids)) = Some t' \<and>
            mset (rows t') = filter_mset (\<lambda>r. row_id r \<notin> set ids) (mset (rows t)) \<and>
            (\<exists>rs. fst (fetch_dataframe (snd (delete_records e ids))) = Inr rs \<and>
                  set rs = {r \<in> set (rows t). row_id r \<notin> set ids}))"
  using assms
  by (auto simp: delete_records_def sql_delete_def execute_def fetch_dataframe_def
      sql_select_def)

theorem delete_records_exact_witness:
  "fst (delete_records
         (sample_engine [sample_row 3 (2024, 3, 1) None, sample_row 5 (2024, 3, 2) None])
         [3, 7]) = None \<and>
   travel_services (snd (delete_records
         (sample_engine [sample_row 3 (2024, 3, 1) None, sample_row 5 (2024, 3, 2) None])
         [3, 7])) =
     Some \<lparr> rows = [sample_row 5 (2024, 3, 2) None], id_seq = 10 \<rparr>"
  using delete_records_exact [OF sample_engine_table, of _ "[3, 7]"] delete_sample
  by simp

lemma status_filter: "filter_status sel data =
   (if sel = [] then data else filter (\<lambda>r. \<exists>s \<in> set sel. status r = Some s) data)"
  by (simp add: filter_status_def isin_map boolean_index_map)

text \<open>
  Claim C6. With a selection of statuses that is not empty, the status filter keeps
  exactly the rows whose status is one of the selected; with an empty selection no row is
  removed.
\<close>

theorem status_filter_exact:
  "(selected_status \<noteq> [] \<longrightarrow>
      apply_filters selected_status [] None data =
        Inr (filter (\<lambda>r. \<exists>s \<in> set selected_status. status r = Some s) data)) \<and>
   apply_filters [] [] None data = Inr data"
  by (simp add: apply_filters_def status_filter filter_months_def filter_issue_range_def)

theorem status_filter_exact_witness:
  "apply_filters [ascii ''CANCELADA''] [] None
     [sample_row 1 (2024, 3, 1) (Some (ascii ''CANCELADA'')), sample_row 2 (2024, 3, 1) None,
      sample_row 3 (2024, 3, 1) (Some (ascii ''ATENDIDA''))] =
     Inr [sample_row 1 (2024, 3, 1) (Some (ascii ''CANCELADA''))] \<and>
   apply_filters [] [] None
     [sample_row 1 (2024, 3, 1) (Some (ascii ''CANCELADA'')), sample_row 2 (2024, 3, 1) None,
      sample_row 3 (2024, 3, 1) (Some (ascii ''ATENDIDA''))] =
     Inr [sample_row 1 (2024, 3, 1) (Some (ascii ''CANCELADA'')), sample_row 2 (2024, 3, 1) None,
      sample_row 3 (2024, 3, 1) (Some (ascii ''ATENDIDA''))]"
  using status_filter_exact [of "[ascii ''CANCELADA'']"
     "[sample_row 1 (2024, 3, 1) (Some (ascii ''CANCELADA'')), sample_row 2 (2024, 3, 1) None,
      sample_row 3 (2024, 3, 1) (Some (ascii ''ATENDIDA''))]"]
  by (simp add: sample_row_def ascii_def)

lemma compare_column_raises:
  assumes "xs \<noteq> []" and "\<And>x. x \<in> set xs \<Longrightarrow> f x = Inl exc"
  shows "compare_column f xs = Inl exc"
  using assms by (cases xs) simp_all

lemma range_filter_raises:
  assumes "filtered \<noteq> []"
  shows "filter_issue_range (Some [start, end']) filtered = Inl TypeError"
proof -
  have "compare_column (\<lambda>c. ge_cell c (to_datetime start)) (issue_date_column filtered) =
          Inl TypeError"
    using assms
    by (intro compare_column_raises) (auto simp: issue_date_column_def to_datetime_def)
  then show ?thesis by (simp add: filter_issue_range_def)
qed

lemma range_filter_empty: "filter_issue_range (Some [start, end']) [] = Inr []"
  by (simp add: filter_issue_range_def issue_date_column_def boolean_index_def mask_and_def)

text \<open>
  Claim C7 does not hold of the code. The filter on a range of issue dates compares the
  issue dates of the frame, which are \<open>datetime.date\<close> objects, with bounds that
  \<open>pd.to_datetime\<close> has made \<open>pd.Timestamp\<close>s: whenever the earlier filters leave a row,
  the comparison raises \<open>TypeError\<close> and no row is returned, whether or not its issue
  date lies in the range. Only an empty frame passes, and stays empty.
\<close>

theorem issue_range_filter_raises:
  "(filter_months selected_months (filter_status selected_status data) \<noteq> [] \<longrightarrow>
      apply_filters selected_status selected_months (Some [start, end']) data =
        Inl TypeError) \<and>
   (filter_months selected_months (filter_status selected_status data) = [] \<longrightarrow>
      apply_filters selected_status selected_months (Some [start, end']) data = Inr [])"
  by (simp add: apply_filters_def range_filter_raises range_filter_empty)

text \<open>One stored row whose issue date lies inside the range asked for: the filter, and
  the tab with it, raise.\<close>

theorem issue_range_filter_raises_witness:
  "apply_filters [] [] (Some [(2024, 3, 2), (2024, 3, 31)])
     [sample_row 2 (2024, 3, 5) None] = Inl TypeError \<and>
   (2024, 3, 2) \<le> issue_date (sample_row 2 (2024, 3, 5) None) \<and>
   issue_date (sample_row 2 (2024, 3, 5) None) \<le> (2024, 3, 31) \<and>
   fst (show_table_tab (sample_engine [sample_row 2 (2024, 3, 5) None]) [] []
          (Some [(2024, 3, 2), (2024, 3, 31)])) = Inl TypeError"
proof -
  have a: "apply_filters [] [] (Some [(2024, 3, 2), (2024, 3, 31)])
     [sample_row 2 (2024, 3, 5) None] = Inl TypeError"
    using issue_range_filter_raises [of "[]" "[]" "[sample_row 2 (2024, 3, 5) None]"
        "(2024, 3, 2)" "(2024, 3, 31)"]
    by (simp add: filter_months_def filter_status_def)
  have f: "fetch_dataframe (sample_engine [sample_row 2 (2024, 3, 5) None]) =
      (Inr [sample_row 2 (2024, 3, 5) None],
       execute SELECT (sample_engine [sample_row 2 (2024, 3, 5) None]))"
    by (simp add: fetch_dataframe_def sample_engine_def sql_select_def)
  have "fst (show_table_tab (sample_engine [sample_row 2 (2024, 3, 5) None]) [] []
          (Some [(2024, 3, 2), (2024, 3, 31)])) = Inl TypeError"
    by (simp add: show_table_tab_def f a)
  moreover have "(2024, 3, 2) \<le> issue_date (sample_row 2 (2024, 3, 5) None) \<and>
      issue_date (sample_row 2 (2024, 3, 5) None) \<le> (2024, 3, 31)"
    by (simp add: sample_row_def)
  ultimately show ?thesis using a by simp
qed

text \<open>
  Claim C3. A submitted create form whose control code is empty after trimming is
  answered with the validation message alone: no statement is executed and the engine,
  so the list read next, is as before. Any other submitted form reaches the \<open>INSERT\<close>.
\<close>

theorem create_rejects_blank_control:
  "(strip (f_control f) = [] \<longrightarrow>
      show_create_tab e now True f = ([Error_Controle_obrigatorio], e) \<and>
      executed (snd (show_create_tab e now True f)) = executed e \<and>
      fst (fetch_dataframe (snd (show_create_tab e now True f))) = fst (fetch_dataframe e)) \<and>
   (strip (f_control f) \<noteq> [] \<longrightarrow>
      executed (snd (show_create_tab e now True f)) = executed e @ [INSERT])"
  by (auto simp: show_create_tab_def insert_record_def execute_def Let_def
      split: option.splits sum.splits prod.splits)

theorem create_rejects_blank_control_witness:
  "strip (f_control (sample_form (ascii ''  '') 100)) = [] \<and>
   show_create_tab (sample_engine []) 0 True (sample_form (ascii ''  '') 100) =
     ([Error_Controle_obrigatorio], sample_engine []) \<and>
   executed (snd (show_create_tab (sample_engine []) 0 True (sample_form (ascii ''ABC123'') 100))) =
     [CREATE_TABLE, INSERT]"
  using create_rejects_blank_control [of "sample_form (ascii ''  '') 100" "sample_engine []" 0]
    create_rejects_blank_control [of "sample_form (ascii ''ABC123'') 100" "sample_engine []" 0]
    blank_strip abc_strip
  by (simp add: sample_engine_def)

lemma regenerate_matches: "total_cost_matches (regenerate r)"
  by (simp add: total_cost_matches_def regenerate_def generated_total_cost_def)

lemma inserted_row_matches: "total_cost_matches (inserted_row i now q)"
  by (simp add: inserted_row_def regenerate_matches)

lemma updated_row_matches: "total_cost_matches (updated_row q r)"
  by (simp add: updated_row_def regenerate_matches)

lemma sql_insert_rows:
  assumes "sql_insert t now p = Inr t'"
  shows "\<exists>q. coerce p = Inr q \<and> rows t' = rows t @ [inserted_row (id_seq t + 1) now q]"
proof (cases "coerce p")
  case (Inl err)
  with assms show ?thesis by (simp add: sql_insert_def)
next
  case (Inr q)
  with assms have "t' = t\<lparr> rows := rows t @ [inserted_row (id_seq t + 1) now q],
                           id_seq := id_seq t + 1 \<rparr>"
    by (simp add: sql_insert_def Let_def split: if_splits)
  then have "rows t' = rows t @ [inserted_row (id_seq t + 1) now q]" by simp
  with Inr show ?thesis by simp
qed

lemma sql_update_rows:
  assumes "sql_update t i p = Inr t'"
  shows "\<exists>q. coerce p = Inr q \<and>
           rows t' = map (\<lambda>r. if row_id r = i then updated_row q r else r) (rows t)"
proof (cases "coerce p")
  case (Inl err)
  with assms show ?thesis by (simp add: sql_update_def)
next
  case (Inr q)
  with assms have "t' = t\<lparr> rows := map (\<lambda>r. if row_id r = i then updated_row q r else r) (rows t) \<rparr>"
    by (simp add: sql_update_def split: if_splits)
  then have "rows t' = map (\<lambda>r. if row_id r = i then updated_row q r else r) (rows t)" by simp
  with Inr show ?thesis by simp
qed

lemma sql_insert_matches:
  assumes "sql_insert t now p = Inr t'" "list_all total_cost_matches (rows t)"
  shows "list_all total_cost_matches (rows t')"
  using sql_insert_rows [OF assms(1)] assms(2) by (auto simp: inserted_row_matches)

lemma sql_update_matches:
  assumes "sql_update t i p = Inr t'" "list_all total_cost_matches (rows t)"
  shows "list_all total_cost_matches (rows t')"
  using sql_update_rows [OF assms(1)] assms(2)
  by (auto simp: updated_row_matches list_all_iff)

lemma coerce_costs:
  assumes "coerce p = Inr q"
  shows "p_service_cost q = numeric_12_2 (p_service_cost p)"
    and "p_fee q = numeric_12_2 (p_fee p)"
proof -
  have "q = p\<lparr> p_service_type := take 32 (p_service_type p),
                    p_control := take 64 (p_control p),
                    p_issuer := take 64 (p_issuer p),
                    p_airline := map_option (take 64) (p_airline p),
                    p_origin := map_option (take 64) (p_origin p),
                    p_destination := map_option (take 64) (p_destination p),
                    p_user_name := map_option (take 64) (p_user_name p),
                    p_cost_center := map_option (take 32) (p_cost_center p),
                    p_service_cost := numeric_12_2 (p_service_cost p),
                    p_fee := numeric_12_2 (p_fee p),
                    p_status := map_option (take 32) (p_status p),
                    p_supplier := map_option (take 64) (p_supplier p),
                    p_nf_number := map_option (take 64) (p_nf_number p) \<rparr>"
    using assms unfolding coerce_def by (simp split: if_splits)
  then show "p_service_cost q = numeric_12_2 (p_service_cost p)"
    and "p_fee q = numeric_12_2 (p_fee p)" by simp_all
qed

lemma inserted_row_total:
  "total_cost (inserted_row i now q) = Some (p_service_cost q + p_fee q)"
  by (simp add: inserted_row_def regenerate_def generated_total_cost_def COALESCE_def)

lemma updated_row_total:
  "total_cost (updated_row q r) = Some (p_service_cost q + p_fee q)"
  by (simp add: updated_row_def regenerate_def generated_total_cost_def COALESCE_def)

lemma updated_row_idem: "updated_row q (updated_row q r) = updated_row q r"
  by (simp add: updated_row_def regenerate_def generated_total_cost_def)

lemma updated_row_id: "row_id (updated_row q r) = row_id r"
  by (simp add: updated_row_def regenerate_def)

lemma sql_delete_matches:
  "list_all total_cost_matches (rows t) \<Longrightarrow> list_all total_cost_matches (rows (sql_delete t ids))"
  by (simp add: sql_delete_def list_all_iff)

lemma insert_record_matches:
  assumes "stored_totals_match e"
  shows "stored_totals_match (snd (insert_record e now p))"
proof (cases "travel_services e")
  case None
  then show ?thesis by (simp add: insert_record_def execute_def stored_totals_match_def)
next
  case (Some t)
  show ?thesis
  proof (cases "sql_insert t now p")
    case (Inl err)
    with Some assms show ?thesis
      by (simp add: insert_record_def execute_def stored_totals_match_def)
  next
    case (Inr t')
    moreover from Some assms have "list_all total_cost_matches (rows t)"
      by (simp add: stored_totals_match_def)
    ultimately have "list_all total_cost_matches (rows t')" by (rule sql_insert_matches)
    with Some Inr show ?thesis
      by (simp add: insert_record_def execute_def stored_totals_match_def)
  qed
qed

lemma update_record_matches:
  assumes "stored_totals_match e"
  shows "stored_totals_match (snd (update_record e i p))"
proof (cases "travel_services e")
  case None
  then show ?thesis by (simp add: update_record_def execute_def stored_totals_match_def)
next
  case (Some t)
  show ?thesis
  proof (cases "sql_update t i p")
    case (Inl err)
    with Some assms show ?thesis
      by (simp add: update_record_def execute_def stored_totals_match_def)
  next
    case (Inr t')
    moreover from Some assms have "list_all total_cost_matches (rows t)"
      by (simp add: stored_totals_match_def)
    ultimately have "list_all total_cost_matches (rows t')" by (rule sql_update_matches)
    with Some Inr show ?thesis
      by (simp add: update_record_def execute_def stored_totals_match_def)
  qed
qed

lemma delete_records_matches:
  "stored_totals_match e \<Longrightarrow> stored_totals_match (snd (delete_records e ids))"
  by (cases "travel_services e")
    (simp_all add: stored_totals_match_def delete_records_def execute_def sql_delete_matches)

lemma ensure_table_matches:
  "stored_totals_match e \<Longrightarrow> stored_totals_match (ensure_table e)"
  by (cases "travel_services e")
    (simp_all add: stored_totals_match_def ensure_table_def execute_def empty_table_def)

lemma fetch_dataframe_matches:
  "stored_totals_match e \<Longrightarrow> stored_totals_match (snd (fetch_dataframe e))"
  by (cases "travel_services e")
    (simp_all add: stored_totals_match_def fetch_dataframe_def execute_def)

lemma show_create_tab_matches:
  assumes "stored_totals_match e"
  shows "stored_totals_match (snd (show_create_tab e now b f))"
proof -
  have "stored_totals_match (snd (insert_record e now (payload_of_form f)))"
    using assms by (rule insert_record_matches)
  then show ?thesis using assms
    by (cases "insert_record e now (payload_of_form f)")
      (simp add: show_create_tab_def Let_def split: option.splits)
qed

lemma perform_matches: "stored_totals_match e \<Longrightarrow> stored_totals_match (perform e op)"
  by (cases op)
    (simp_all add: ensure_table_matches fetch_dataframe_matches insert_record_matches
      update_record_matches delete_records_matches show_create_tab_matches)

lemma foldl_perform_matches:
  "stored_totals_match e \<Longrightarrow> stored_totals_match (foldl perform e ops)"
  by (induction ops arbitrary: e) (simp_all add: perform_matches)

text \<open>
  Claim C1. From a state whose stored totals are those of the generated column (a
  database without the table is one), after any run of the application every row the
  table holds has as total cost the sum of its service cost and its fee, an absent one
  counting as zero. The total that an insert or an update stores is computed from the
  two cost fields of the payload as the columns store them: no payload field writes it.
  The statement is about the values in the database, not about the floats of a frame
  read from it.
\<close>

theorem total_cost_generated:
  "(stored_totals_match e0 \<and> travel_services (foldl perform e0 ops) = Some stored \<and>
    r \<in> set (rows stored)
      \<longrightarrow> total_cost r = Some (COALESCE (service_cost r) 0 + COALESCE (fee r) 0)) \<and>
   (travel_services e0 = None \<longrightarrow> stored_totals_match e0) \<and>
   (sql_insert t now payload = Inr t' \<longrightarrow>
      (\<exists>new. rows t' = rows t @ [new] \<and>
         total_cost new = Some (numeric_12_2 (p_service_cost payload) +
                                numeric_12_2 (p_fee payload)))) \<and>
   (sql_update t record_id payload = Inr t' \<longrightarrow>
      (\<forall>new \<in> set (rows t'). row_id new = record_id \<longrightarrow>
         total_cost new = Some (numeric_12_2 (p_service_cost payload) +
                                numeric_12_2 (p_fee payload))))"
proof (intro conjI impI)
  assume a: "stored_totals_match e0 \<and> travel_services (foldl perform e0 ops) = Some stored \<and>
    r \<in> set (rows stored)"
  then have "stored_totals_match (foldl perform e0 ops)" by (simp add: foldl_perform_matches)
  with a have "total_cost_matches r"
    by (simp add: stored_totals_match_def list_all_iff)
  then show "total_cost r = Some (COALESCE (service_cost r) 0 + COALESCE (fee r) 0)"
    by (simp add: total_cost_matches_def)
next
  assume "travel_services e0 = None"
  then show "stored_totals_match e0" by (simp add: stored_totals_match_def)
next
  assume "sql_insert t now payload = Inr t'"
  then obtain q where "coerce payload = Inr q"
    "rows t' = rows t @ [inserted_row (id_seq t + 1) now q]"
    using sql_insert_rows by blast
  then show "\<exists>new. rows t' = rows t @ [new] \<and>
         total_cost new = Some (numeric_12_2 (p_service_cost payload) +
                                numeric_12_2 (p_fee payload))"
    by (simp add: inserted_row_total coerce_costs)
next
  assume "sql_update t record_id payload = Inr t'"
  then obtain q where q: "coerce payload = Inr q"
    "rows t' = map (\<lambda>r. if row_id r = record_id then updated_row q r else r) (rows t)"
    using sql_update_rows by blast
  show "\<forall>new \<in> set (rows t'). row_id new = record_id \<longrightarrow>
         total_cost new = Some (numeric_12_2 (p_service_cost payload) +
                                numeric_12_2 (p_fee payload))"
  proof (intro ballI impI)
    fix new assume "new \<in> set (rows t')" "row_id new = record_id"
    then obtain r where "new = updated_row q r"
      using q(2) by (auto split: if_splits simp: updated_row_id) 
    then show "total_cost new = Some (numeric_12_2 (p_service_cost payload) +
                                numeric_12_2 (p_fee payload))"
      using q(1) by (simp add: updated_row_total coerce_costs)
  qed
qed

lemma sql_update_idem:
  assumes "sql_update t i p = Inr t'"
  shows "sql_update t' i p = Inr t'"
proof -
  let ?f = "\<lambda>q r. if row_id r = i then updated_row q r else r"
  obtain q where q: "coerce p = Inr q" and rows': "rows t' = map (?f q) (rows t)"
    using sql_update_rows [OF assms] by blast
  have ok: "\<not> list_ex (\<lambda>r. row_id r = i \<and> \<not> total_fits (updated_row q r)) (rows t)"
    using assms q by (simp add: sql_update_def split: if_splits)
  have ff: "map (?f q) (rows t') = rows t'"
    unfolding rows' by (simp add: updated_row_idem updated_row_id)
  have ok': "\<not> list_ex (\<lambda>r. row_id r = i \<and> \<not> total_fits (updated_row q r)) (rows t')"
  proof
    assume "list_ex (\<lambda>r. row_id r = i \<and> \<not> total_fits (updated_row q r)) (rows t')"
    then obtain x where x: "x \<in> set (rows t')" "row_id x = i"
        "\<not> total_fits (updated_row q x)"
      unfolding list_ex_iff by blast
    from x(1) obtain r where r: "r \<in> set (rows t)" "x = ?f q r"
      unfolding rows' by auto
    show False
    proof (cases "row_id r = i")
      case True
      then have "x = updated_row q r" using r(2) by simp
      then have "\<not> total_fits (updated_row q r)" using x(3) by (simp add: updated_row_idem)
      with r(1) True have "list_ex (\<lambda>r. row_id r = i \<and> \<not> total_fits (updated_row q r)) (rows t)"
        unfolding list_ex_iff by blast
      with ok show False by simp
    next
      case False
      then have "x = r" using r(2) by simp
      with x(2) False show False by simp
    qed
  qed
  have "sql_update t' i p = Inr (t'\<lparr> rows := map (?f q) (rows t') \<rparr>)"
    using q ok' by (simp add: sql_update_def)
  then show ?thesis by (simp add: ff)
qed

text \<open>
  Claim C9. Updating twice with the same identifier and payload gives the same outcome
  and leaves the same table as updating once.
\<close>

theorem update_record_idempotent:
  "fst (update_record (snd (update_record e record_id payload)) record_id payload) =
     fst (update_record e record_id payload) \<and>
   travel_services (snd (update_record (snd (update_record e record_id payload)) record_id payload)) =
     travel_services (snd (update_record e record_id payload))"
proof (cases "travel_services e")
  case None
  then show ?thesis by (simp add: update_record_def execute_def)
next
  case (Some t)
  show ?thesis
  proof (cases "sql_update t record_id payload")
    case (Inl err)
    with Some show ?thesis by (simp add: update_record_def execute_def)
  next
    case (Inr t')
    then have "sql_update t' record_id payload = Inr t'" by (rule sql_update_idem)
    with Some Inr show ?thesis by (simp add: update_record_def execute_def)
  qed
qed

lemma trimmed_strip: "trimmed (strip s)"
  by (cases "strip s = []") (simp_all add: trimmed_def strip_hd strip_last)

lemma or_None_strip: "null_or_trimmed (or_None (strip s))"
  by (simp add: null_or_trimmed_def or_None_def trimmed_strip)

lemma or_None_nonempty: "null_or_nonempty (or_None s)"
  by (simp add: null_or_nonempty_def or_None_def)

lemma or_0_eq: "or_0 x = (case x of None \<Rightarrow> 0 | Some v \<Rightarrow> v)"
  by (simp add: or_0_def split: option.splits)

lemma py_round2_0: "py_round2 0 = 0"
  by (simp add: py_round2_def round_half_even_def)

section \<open>The example of the specification\<close>

lemma float_100_005_round: "py_round2 float_100_005 = 100"
  by code_simp

lemma py_round2_50: "py_round2 50 = 50"
  by code_simp

lemma numeric_12_2_100: "numeric_12_2 100 = 100"
  by code_simp

lemma numeric_12_2_50: "numeric_12_2 50 = 50"
  by code_simp

lemma sample_payload:
  "payload_of_form (sample_form (ascii ''ABC123'') float_100_005) =
     \<lparr> p_service_type = ascii ''SEGURO'', p_control = ascii ''ABC123'',
       p_issue_date = (2024, 3, 1), p_issuer = ascii ''ANA'', p_airline = None,
       p_departure_date = None, p_month_number = 3, p_origin = None,
       p_destination = None, p_user_name = None, p_reason = None,
       p_cost_center = Some (ascii ''RH''), p_service_cost = 100, p_fee = 50,
       p_status = Some (ascii ''EM ABERTO''), p_supplier = Some (ascii ''RIOMAR''),
       p_nf_issue_date = None, p_nf_number = None \<rparr>"
  by (simp add: payload_of_form_def sample_form_def build_payload_def strip_def or_None_def
      or_0_eq float_100_005_round py_round2_50 ascii_def py_isspace_def)

lemma sample_coerce:
  "coerce (payload_of_form (sample_form (ascii ''ABC123'') float_100_005)) =
     Inr (payload_of_form (sample_form (ascii ''ABC123'') float_100_005))"
  unfolding sample_payload
  by (simp add: coerce_def varchar_fits_def varchar_opt_fits_def smallint_fits_def
      numeric_fits_def numeric_12_2_100 numeric_12_2_50 ascii_def)

lemma sample_inserted_row:
  "inserted_row 1 0 (payload_of_form (sample_form (ascii ''ABC123'') float_100_005)) =
     sample_row 1 (2024, 3, 1) (Some (ascii ''EM ABERTO''))"
  unfolding sample_payload
  by (simp add: inserted_row_def regenerate_def generated_total_cost_def COALESCE_def
      sample_row_def)

lemma sample_total_fits: "total_fits (sample_row i d st)"
  by (simp add: total_fits_def generated_total_cost_def COALESCE_def sample_row_def)

lemma sample_sql_insert:
  "sql_insert empty_table 0 (payload_of_form (sample_form (ascii ''ABC123'') float_100_005)) =
     Inr \<lparr> rows = [sample_row 1 (2024, 3, 1) (Some (ascii ''EM ABERTO''))], id_seq = 1 \<rparr>"
  by (simp add: sql_insert_def sample_coerce Let_def empty_table_def sample_inserted_row
      sample_total_fits)

lemma sample_create:
  "show_create_tab (ensure_table no_table) 0 True (sample_form (ascii ''ABC123'') float_100_005) =
     ([Success_Registro_salvo, Info_Custo_total 150, Rerun],
      \<lparr> travel_services =
          Some \<lparr> rows = [sample_row 1 (2024, 3, 1) (Some (ascii ''EM ABERTO''))], id_seq = 1 \<rparr>,
        executed = [CREATE_TABLE, INSERT] \<rparr>)"
proof -
  have c: "strip (f_control (sample_form (ascii ''ABC123'') float_100_005)) \<noteq> []"
    by (simp add: sample_form_def strip_def ascii_def py_isspace_def)
  have t: "travel_services (ensure_table no_table) = Some empty_table"
    "executed (ensure_table no_table) = [CREATE_TABLE]"
    by (simp_all add: ensure_table_def no_table_def execute_def)
  have i: "insert_record (ensure_table no_table) 0
             (payload_of_form (sample_form (ascii ''ABC123'') float_100_005)) =
           (None, \<lparr> travel_services =
                Some \<lparr> rows = [sample_row 1 (2024, 3, 1) (Some (ascii ''EM ABERTO''))], id_seq = 1 \<rparr>,
              executed = [CREATE_TABLE, INSERT] \<rparr>)"
    by (simp add: insert_record_def t sample_sql_insert execute_def ensure_table_def no_table_def)
  have p: "p_service_cost (payload_of_form (sample_form (ascii ''ABC123'') float_100_005)) +
           p_fee (payload_of_form (sample_form (ascii ''ABC123'') float_100_005)) = 150"
    unfolding sample_payload by simp
  show ?thesis
    using c by (simp add: show_create_tab_def i p Let_def)
qed

lemma sample_run:
  "foldl perform no_table
     [Ensure_table, Show_create_tab 0 True (sample_form (ascii ''ABC123'') float_100_005)] =
   \<lparr> travel_services =
       Some \<lparr> rows = [sample_row 1 (2024, 3, 1) (Some (ascii ''EM ABERTO''))], id_seq = 1 \<rparr>,
     executed = [CREATE_TABLE, INSERT] \<rparr>"
  by (simp add: sample_create)

text \<open>A run of the application on a database without the table: the one row stored
  afterwards has the generated total.\<close>

theorem total_cost_generated_witness:
  "stored_totals_match no_table \<and>
   travel_services (foldl perform no_table
     [Ensure_table, Show_create_tab 0 True (sample_form (ascii ''ABC123'') float_100_005)]) =
     Some \<lparr> rows = [sample_row 1 (2024, 3, 1) (Some (ascii ''EM ABERTO''))], id_seq = 1 \<rparr> \<and>
   total_cost (sample_row 1 (2024, 3, 1) (Some (ascii ''EM ABERTO''))) =
     Some (COALESCE (service_cost (sample_row 1 (2024, 3, 1) (Some (ascii ''EM ABERTO'')))) 0 +
           COALESCE (fee (sample_row 1 (2024, 3, 1) (Some (ascii ''EM ABERTO'')))) 0) \<and>
   total_cost (sample_row 1 (2024, 3, 1) (Some (ascii ''EM ABERTO''))) = Some 150"
proof -
  have m: "stored_totals_match no_table"
    by (simp add: stored_totals_match_def no_table_def)
  have s: "travel_services (foldl perform no_table
     [Ensure_table, Show_create_tab 0 True (sample_form (ascii ''ABC123'') float_100_005)]) =
     Some \<lparr> rows = [sample_row 1 (2024, 3, 1) (Some (ascii ''EM ABERTO''))], id_seq = 1 \<rparr>"
    unfolding sample_run by simp
  note h = total_cost_generated [of no_table
      "[Ensure_table, Show_create_tab 0 True (sample_form (ascii ''ABC123'') float_100_005)]"
      "\<lparr> rows = [sample_row 1 (2024, 3, 1) (Some (ascii ''EM ABERTO''))], id_seq = 1 \<rparr>"
      "sample_row 1 (2024, 3, 1) (Some (ascii ''EM ABERTO''))", THEN conjunct1]
  have "total_cost (sample_row 1 (2024, 3, 1) (Some (ascii ''EM ABERTO''))) =
     Some (COALESCE (service_cost (sample_row 1 (2024, 3, 1) (Some (ascii ''EM ABERTO'')))) 0 +
           COALESCE (fee (sample_row 1 (2024, 3, 1) (Some (ascii ''EM ABERTO'')))) 0)"
    using h m s by simp
  moreover have "total_cost (sample_row 1 (2024, 3, 1) (Some (ascii ''EM ABERTO''))) = Some 150"
    by (simp add: sample_row_def)
  ultimately show ?thesis using m s by simp
qed

lemma sample_updated_row:
  "updated_row (payload_of_form (sample_form (ascii ''ABC123'') float_100_005))
     (sample_row 3 (2024, 2, 2) None) =
   sample_row 3 (2024, 3, 1) (Some (ascii ''EM ABERTO''))"
  unfolding sample_payload
  by (simp add: updated_row_def regenerate_def generated_total_cost_def COALESCE_def
      sample_row_def)

lemma sample_update:
  "update_record (sample_engine [sample_row 3 (2024, 2, 2) None]) 3
     (payload_of_form (sample_form (ascii ''ABC123'') float_100_005)) =
   (None, \<lparr> travel_services =
       Some \<lparr> rows = [sample_row 3 (2024, 3, 1) (Some (ascii ''EM ABERTO''))], id_seq = 10 \<rparr>,
     executed = [CREATE_TABLE, UPDATE] \<rparr>)"
proof -
  have i: "row_id (sample_row 3 (2024, 2, 2) None) = 3" by (simp add: sample_row_def)
  show ?thesis
    by (simp add: update_record_def sample_engine_def sql_update_def sample_coerce
        sample_updated_row sample_total_fits i execute_def)
qed

text \<open>An update that succeeds, applied twice.\<close>

theorem update_record_idempotent_witness:
  "fst (update_record (sample_engine [sample_row 3 (2024, 2, 2) None]) 3
     (payload_of_form (sample_form (ascii ''ABC123'') float_100_005))) = None \<and>
   fst (update_record (snd (update_record (sample_engine [sample_row 3 (2024, 2, 2) None]) 3
     (payload_of_form (sample_form (ascii ''ABC123'') float_100_005)))) 3
     (payload_of_form (sample_form (ascii ''ABC123'') float_100_005))) = None \<and>
   travel_services (snd (update_record (snd (update_record
     (sample_engine [sample_row 3 (2024, 2, 2) None]) 3
     (payload_of_form (sample_form (ascii ''ABC123'') float_100_005)))) 3
     (payload_of_form (sample_form (ascii ''ABC123'') float_100_005)))) =
   Some \<lparr> rows = [sample_row 3 (2024, 3, 1) (Some (ascii ''EM ABERTO''))], id_seq = 10 \<rparr>"
  using update_record_idempotent [of "sample_engine [sample_row 3 (2024, 2, 2) None]" 3
      "payload_of_form (sample_form (ascii ''ABC123'') float_100_005)"]
  unfolding sample_update by simp

text \<open>
  The example of the specification on an empty table: the stored service cost is
  \<open>100.00\<close>, not \<open>100.01\<close>, and the stored total is \<open>150.00\<close>, not \<open>150.01\<close>.
\<close>

theorem spec_example_rounding_counterexample:
  "snd (show_create_tab (ensure_table no_table) 0 True
         (sample_form (ascii ''ABC123'') float_100_005)) =
     \<lparr> travel_services =
         Some \<lparr> rows = [sample_row 1 (2024, 3, 1) (Some (ascii ''EM ABERTO''))], id_seq = 1 \<rparr>,
       executed = [CREATE_TABLE, INSERT] \<rparr> \<and>
   service_cost (sample_row 1 (2024, 3, 1) (Some (ascii ''EM ABERTO''))) = Some 100 \<and>
   total_cost (sample_row 1 (2024, 3, 1) (Some (ascii ''EM ABERTO''))) = Some 150 \<and>
   Some (100 :: rat) \<noteq> Some (10001 / 100) \<and> Some (150 :: rat) \<noteq> Some (15001 / 100)"
  by (simp add: sample_create sample_row_def)

lemma inserted_row_fields:
  "row_id (inserted_row i now q) = i"
  "service_cost (inserted_row i now q) = Some (p_service_cost q)"
  "fee (inserted_row i now q) = Some (p_fee q)"
  by (simp_all add: inserted_row_def regenerate_def)

lemma inserted_row_fits:
  "total_fits (inserted_row i now q) \<longleftrightarrow> \<bar>p_service_cost q + p_fee q\<bar> < 10 ^ 10"
  by (simp add: total_fits_def generated_total_cost_def COALESCE_def inserted_row_fields)

lemma float_100_005_facts:
  "float_100_005 * 2 ^ 46 = 7037226261487288 \<and>
   (2 :: rat) ^ 52 \<le> 7037226261487288 \<and> 7037226261487288 < (2 :: rat) ^ 53 \<and>
   \<bar>float_100_005 - 100005 / 1000\<bar> < 1 / 2 ^ 47 \<and>
   float_100_005 < 100005 / 1000"
  by (simp add: float_100_005_def)

lemma decimal_100_005_round: "py_round2 (100005 / 1000) = 100"
  by code_simp

text \<open>
  Claim C5, as amended. The float read from \<open>100.005\<close> is \<open>7037226261487288 / 2 ^ 46\<close>,
  the binary64 value nearest to the decimal and below it; \<open>round\<close> takes it to
  \<open>100.00\<close>, and takes the exact decimal tie \<open>100.005\<close> to the even \<open>100.00\<close> as well.
  On every table that accepts the insert, the create form with service cost \<open>100.005\<close>
  and fee \<open>50.00\<close> stores service cost \<open>100.00\<close>, fee \<open>50.00\<close> and total cost
  \<open>150.00\<close>.
\<close>

theorem spec_example_stores_100:
  assumes "travel_services e = Some t" and "id_seq t + 1 \<notin> set (map row_id (rows t))"
  shows "(\<exists>new. snd (show_create_tab e now True (sample_form (ascii ''ABC123'') float_100_005)) =
            execute INSERT
              (e\<lparr> travel_services := Some (t\<lparr> rows := rows t @ [new], id_seq := id_seq t + 1 \<rparr>) \<rparr>) \<and>
            service_cost new = Some 100 \<and> fee new = Some 50 \<and> total_cost new = Some 150) \<and>
         float_100_005 * 2 ^ 46 = 7037226261487288 \<and>
         (2 :: rat) ^ 52 \<le> 7037226261487288 \<and> 7037226261487288 < (2 :: rat) ^ 53 \<and>
         \<bar>float_100_005 - 100005 / 1000\<bar> < 1 / 2 ^ 47 \<and>
         float_100_005 < 100005 / 1000 \<and>
         py_round2 float_100_005 = 100 \<and> py_round2 (100005 / 1000) = 100"
proof -
  let ?P = "payload_of_form (sample_form (ascii ''ABC123'') float_100_005)"
  let ?new = "inserted_row (id_seq t + 1) now ?P"
  have costs: "p_service_cost ?P = 100" "p_fee ?P = 50"
    unfolding sample_payload by simp_all
  have fits: "total_fits ?new" by (simp add: inserted_row_fits costs)
  have ins: "sql_insert t now ?P =
      Inr (t\<lparr> rows := rows t @ [?new], id_seq := id_seq t + 1 \<rparr>)"
    using assms(2) fits by (simp add: sql_insert_def sample_coerce Let_def inserted_row_fields)
  have rec: "insert_record e now ?P =
      (None, execute INSERT
         (e\<lparr> travel_services := Some (t\<lparr> rows := rows t @ [?new], id_seq := id_seq t + 1 \<rparr>) \<rparr>))"
    using assms(1) by (simp add: insert_record_def ins)
  have c: "strip (f_control (sample_form (ascii ''ABC123'') float_100_005)) \<noteq> []"
    by (simp add: sample_form_def strip_def ascii_def py_isspace_def)
  have "snd (show_create_tab e now True (sample_form (ascii ''ABC123'') float_100_005)) =
      execute INSERT
         (e\<lparr> travel_services := Some (t\<lparr> rows := rows t @ [?new], id_seq := id_seq t + 1 \<rparr>) \<rparr>)"
    using c by (simp add: show_create_tab_def Let_def rec)
  moreover have "service_cost ?new = Some 100" "fee ?new = Some 50"
    by (simp_all add: inserted_row_fields costs)
  moreover have "total_cost ?new = Some 150"
    by (simp add: inserted_row_total costs)
  ultimately have "\<exists>new. snd (show_create_tab e now True (sample_form (ascii ''ABC123'') float_100_005)) =
            execute INSERT
              (e\<lparr> travel_services := Some (t\<lparr> rows := rows t @ [new], id_seq := id_seq t + 1 \<rparr>) \<rparr>) \<and>
            service_cost new = Some 100 \<and> fee new = Some 50 \<and> total_cost new = Some 150"
    by blast
  then show ?thesis
    using float_100_005_facts float_100_005_round decimal_100_005_round by simp
qed

theorem spec_example_stores_100_witness:
  "travel_services (ensure_table no_table) = Some empty_table \<and>
   id_seq empty_table + 1 \<notin> set (map row_id (rows empty_table)) \<and>
   (\<exists>new. snd (show_create_tab (ensure_table no_table) 0 True
                  (sample_form (ascii ''ABC123'') float_100_005)) =
            execute INSERT
              ((ensure_table no_table)\<lparr> travel_services :=
                  Some (empty_table\<lparr> rows := rows empty_table @ [new],
                                      id_seq := id_seq empty_table + 1 \<rparr>) \<rparr>) \<and>
            service_cost new = Some 100 \<and> fee new = Some 50 \<and> total_cost new = Some 150)"
proof -
  have a: "travel_services (ensure_table no_table) = Some empty_table"
    by (simp add: ensure_table_def no_table_def execute_def)
  have b: "id_seq empty_table + 1 \<notin> set (map row_id (rows empty_table))"
    by (simp add: empty_table_def)
  from spec_example_stores_100 [OF a b, of 0] a b show ?thesis by blast
qed

section \<open>Normalization of the payload\<close>

lemma or_None_blank:
  "or_None (strip s) = (if list_all py_isspace s then None else Some (strip s))"
  by (simp add: or_None_def strip_eq_Nil)

lemma money_field:
  "(\<bar>or_0 x\<bar> < 2 ^ 46 \<longrightarrow>
      rounded_to_cents (or_0 x) (py_round2 (or_0 x)) \<and>
      (\<forall>w. rounded_to_cents (or_0 x) w \<longrightarrow> w = py_round2 (or_0 x))) \<and>
   (2 ^ 46 \<le> \<bar>or_0 x\<bar> \<longrightarrow> py_round2 (or_0 x) = or_0 x) \<and>
   (x = None \<or> x = Some 0 \<longrightarrow> py_round2 (or_0 x) = 0) \<and>
   (py_round2 (or_0 x) < 0 \<longleftrightarrow> or_0 x < - 1 / 200)"
proof (intro conjI impI allI)
  assume "\<bar>or_0 x\<bar> < 2 ^ 46"
  then show r: "rounded_to_cents (or_0 x) (py_round2 (or_0 x))" by (rule py_round2_rounded)
  fix w assume "rounded_to_cents (or_0 x) w"
  then show "w = py_round2 (or_0 x)" using r by (rule rounded_to_cents_unique)
next
  assume "2 ^ 46 \<le> \<bar>or_0 x\<bar>"
  then show "py_round2 (or_0 x) = or_0 x" by (rule py_round2_large)
next
  assume "x = None \<or> x = Some 0"
  then show "py_round2 (or_0 x) = 0" by (auto simp: or_0_eq py_round2_0)
next
  show "py_round2 (or_0 x) < 0 \<longleftrightarrow> or_0 x < - 1 / 200" by (rule py_round2_negative_iff)
qed

lemma build_payload_fields:
  "p_service_type (build_payload a1 a2 a3 a4 a5 a6 a7 a8 a9 a10 a11 a12 a13 a14 a15 a16 a17 a18) = a1"
  "p_control (build_payload a1 a2 a3 a4 a5 a6 a7 a8 a9 a10 a11 a12 a13 a14 a15 a16 a17 a18) = strip a2"
  "p_issuer (build_payload a1 a2 a3 a4 a5 a6 a7 a8 a9 a10 a11 a12 a13 a14 a15 a16 a17 a18) = strip a4"
  "p_airline (build_payload a1 a2 a3 a4 a5 a6 a7 a8 a9 a10 a11 a12 a13 a14 a15 a16 a17 a18) = or_None a5"
  "p_origin (build_payload a1 a2 a3 a4 a5 a6 a7 a8 a9 a10 a11 a12 a13 a14 a15 a16 a17 a18) = or_None (strip a8)"
  "p_destination (build_payload a1 a2 a3 a4 a5 a6 a7 a8 a9 a10 a11 a12 a13 a14 a15 a16 a17 a18) = or_None (strip a9)"
  "p_user_name (build_payload a1 a2 a3 a4 a5 a6 a7 a8 a9 a10 a11 a12 a13 a14 a15 a16 a17 a18) = or_None (strip a10)"
  "p_reason (build_payload a1 a2 a3 a4 a5 a6 a7 a8 a9 a10 a11 a12 a13 a14 a15 a16 a17 a18) = or_None (strip a11)"
  "p_cost_center (build_payload a1 a2 a3 a4 a5 a6 a7 a8 a9 a10 a11 a12 a13 a14 a15 a16 a17 a18) = or_None a12"
  "p_service_cost (build_payload a1 a2 a3 a4 a5 a6 a7 a8 a9 a10 a11 a12 a13 a14 a15 a16 a17 a18) = py_round2 (or_0 a13)"
  "p_fee (build_payload a1 a2 a3 a4 a5 a6 a7 a8 a9 a10 a11 a12 a13 a14 a15 a16 a17 a18) = py_round2 (or_0 a14)"
  "p_status (build_payload a1 a2 a3 a4 a5 a6 a7 a8 a9 a10 a11 a12 a13 a14 a15 a16 a17 a18) = or_None a15"
  "p_supplier (build_payload a1 a2 a3 a4 a5 a6 a7 a8 a9 a10 a11 a12 a13 a14 a15 a16 a17 a18) = or_None a16"
  "p_nf_number (build_payload a1 a2 a3 a4 a5 a6 a7 a8 a9 a10 a11 a12 a13 a14 a15 a16 a17 a18) = or_None (strip a18)"
  by (simp_all add: build_payload_def)

lemma or_None_if: "or_None s = (if s = [] then None else Some s)"
  by (simp add: or_None_def)

text \<open>
  Claim C4, as amended. For every input, \<open>build_payload\<close> trims the control code, the
  issuer and the five free-text fields (origin, destination, user name, reason, NF
  number: what is cut off at either end is white space, and what is kept has none at its
  ends); a free-text field that is empty after trimming becomes null, while control code
  and issuer stay strings. The service type is passed on as it is, and the four selection
  fields (airline, cost centre, status, supplier) are not trimmed: they become null when
  empty and are passed on otherwise. For each monetary field, a missing input counting as
  zero: an input below \<open>2 ^ 46\<close> in magnitude gives the one value that is the input
  rounded to two decimals, ties to even; an input from \<open>2 ^ 46\<close> on is passed on as it
  is; a missing or zero input gives zero; and the value is negative exactly when the
  input lies more than half a cent below zero, so a negative input is rounded like any
  other and is not set to zero for being negative.
\<close>

theorem build_payload_normalizes:
  assumes "p = build_payload service_type_in control_in issue_date_in issuer_in airline_in
     departure_date_in month_number_in origin_in destination_in user_name_in reason_in
     cost_center_in service_cost_in fee_in status_in supplier_in nf_issue_date_in nf_number_in"
  shows
    "trimmed (p_control p) \<and> trimmed (p_issuer p) \<and>
     (\<exists>a b. control_in = a @ p_control p @ b \<and> list_all py_isspace a \<and> list_all py_isspace b) \<and>
     (\<exists>a b. issuer_in = a @ p_issuer p @ b \<and> list_all py_isspace a \<and> list_all py_isspace b) \<and>
     p_origin p = (if list_all py_isspace origin_in then None else Some (strip origin_in)) \<and>
     p_destination p =
       (if list_all py_isspace destination_in then None else Some (strip destination_in)) \<and>
     p_user_name p =
       (if list_all py_isspace user_name_in then None else Some (strip user_name_in)) \<and>
     p_reason p = (if list_all py_isspace reason_in then None else Some (strip reason_in)) \<and>
     p_nf_number p =
       (if list_all py_isspace nf_number_in then None else Some (strip nf_number_in)) \<and>
     p_service_type p = service_type_in \<and>
     p_airline p = (if airline_in = [] then None else Some airline_in) \<and>
     p_cost_center p = (if cost_center_in = [] then None else Some cost_center_in) \<and>
     p_status p = (if status_in = [] then None else Some status_in) \<and>
     p_supplier p = (if supplier_in = [] then None else Some supplier_in) \<and>
     ((\<bar>or_0 service_cost_in\<bar> < 2 ^ 46 \<longrightarrow>
         rounded_to_cents (or_0 service_cost_in) (p_service_cost p) \<and>
         (\<forall>w. rounded_to_cents (or_0 service_cost_in) w \<longrightarrow> w = p_service_cost p)) \<and>
      (2 ^ 46 \<le> \<bar>or_0 service_cost_in\<bar> \<longrightarrow> p_service_cost p = or_0 service_cost_in) \<and>
      (service_cost_in = None \<or> service_cost_in = Some 0 \<longrightarrow> p_service_cost p = 0) \<and>
      (p_service_cost p < 0 \<longleftrightarrow> or_0 service_cost_in < - 1 / 200)) \<and>
     ((\<bar>or_0 fee_in\<bar> < 2 ^ 46 \<longrightarrow>
         rounded_to_cents (or_0 fee_in) (p_fee p) \<and>
         (\<forall>w. rounded_to_cents (or_0 fee_in) w \<longrightarrow> w = p_fee p)) \<and>
      (2 ^ 46 \<le> \<bar>or_0 fee_in\<bar> \<longrightarrow> p_fee p = or_0 fee_in) \<and>
      (fee_in = None \<or> fee_in = Some 0 \<longrightarrow> p_fee p = 0) \<and>
      (p_fee p < 0 \<longleftrightarrow> or_0 fee_in < - 1 / 200))"
proof -
  have strings:
    "trimmed (p_control p) \<and> trimmed (p_issuer p) \<and>
     (\<exists>a b. control_in = a @ p_control p @ b \<and> list_all py_isspace a \<and> list_all py_isspace b) \<and>
     (\<exists>a b. issuer_in = a @ p_issuer p @ b \<and> list_all py_isspace a \<and> list_all py_isspace b) \<and>
     p_origin p = (if list_all py_isspace origin_in then None else Some (strip origin_in)) \<and>
     p_destination p =
       (if list_all py_isspace destination_in then None else Some (strip destination_in)) \<and>
     p_user_name p =
       (if list_all py_isspace user_name_in then None else Some (strip user_name_in)) \<and>
     p_reason p = (if list_all py_isspace reason_in then None else Some (strip reason_in)) \<and>
     p_nf_number p =
       (if list_all py_isspace nf_number_in then None else Some (strip nf_number_in)) \<and>
     p_service_type p = service_type_in \<and>
     p_airline p = (if airline_in = [] then None else Some airline_in) \<and>
     p_cost_center p = (if cost_center_in = [] then None else Some cost_center_in) \<and>
     p_status p = (if status_in = [] then None else Some status_in) \<and>
     p_supplier p = (if supplier_in = [] then None else Some supplier_in)"
    unfolding assms build_payload_fields
    using strip_decomp [of control_in] strip_decomp [of issuer_in]
    by (simp add: trimmed_strip or_None_def strip_eq_Nil)
  have cost: "p_service_cost p = py_round2 (or_0 service_cost_in)"
    and fee: "p_fee p = py_round2 (or_0 fee_in)"
    unfolding assms by (simp_all add: build_payload_fields)
  show ?thesis
    using strings money_field [of service_cost_in] money_field [of fee_in]
    unfolding cost fee by blast
qed

lemma vocabulary_trimmed:
  "\<forall>s \<in> set AIRLINES. s \<noteq> [] \<and> trimmed s"
  "\<forall>s \<in> set COST_CENTERS. s \<noteq> [] \<and> trimmed s"
  "\<forall>s \<in> set STATUSES. s \<noteq> [] \<and> trimmed s"
  "\<forall>s \<in> set SUPPLIERS. s \<noteq> [] \<and> trimmed s"
  by (simp_all add: AIRLINES_def COST_CENTERS_def STATUSES_def SUPPLIERS_def ascii_def
      trimmed_def py_isspace_def)

lemma or_None_option:
  "s = [] \<or> trimmed s \<Longrightarrow> null_or_trimmed (or_None s)"
  by (auto simp: null_or_trimmed_def or_None_def)

text \<open>
  Claim C10, as amended. For every input, origin, destination, user name, reason and NF
  number are each null or a string that is not empty and has no white space at either
  end; airline, cost centre, status and supplier are each null or a string that is not
  empty, and have no white space at either end whenever the input is one of the options
  that the select boxes offer.
\<close>

theorem optional_fields_null_or_clean:
  assumes "p = build_payload service_type_in control_in issue_date_in issuer_in airline_in
     departure_date_in month_number_in origin_in destination_in user_name_in reason_in
     cost_center_in service_cost_in fee_in status_in supplier_in nf_issue_date_in nf_number_in"
  shows
    "null_or_trimmed (p_origin p) \<and> null_or_trimmed (p_destination p) \<and>
     null_or_trimmed (p_user_name p) \<and> null_or_trimmed (p_reason p) \<and>
     null_or_trimmed (p_nf_number p) \<and>
     null_or_nonempty (p_airline p) \<and> null_or_nonempty (p_cost_center p) \<and>
     null_or_nonempty (p_status p) \<and> null_or_nonempty (p_supplier p) \<and>
     (airline_in \<in> set ([] # AIRLINES) \<longrightarrow> null_or_trimmed (p_airline p)) \<and>
     (cost_center_in \<in> set COST_CENTERS \<longrightarrow> null_or_trimmed (p_cost_center p)) \<and>
     (status_in \<in> set STATUSES \<longrightarrow> null_or_trimmed (p_status p)) \<and>
     (supplier_in \<in> set SUPPLIERS \<longrightarrow> null_or_trimmed (p_supplier p))"
proof -
  have "airline_in \<in> set ([] # AIRLINES) \<longrightarrow> null_or_trimmed (or_None airline_in)"
    using vocabulary_trimmed(1) by (auto intro: or_None_option)
  moreover have "cost_center_in \<in> set COST_CENTERS \<longrightarrow> null_or_trimmed (or_None cost_center_in)"
    using vocabulary_trimmed(2) by (auto intro: or_None_option)
  moreover have "status_in \<in> set STATUSES \<longrightarrow> null_or_trimmed (or_None status_in)"
    using vocabulary_trimmed(3) by (auto intro: or_None_option)
  moreover have "supplier_in \<in> set SUPPLIERS \<longrightarrow> null_or_trimmed (or_None supplier_in)"
    using vocabulary_trimmed(4) by (auto intro: or_None_option)
  ultimately show ?thesis
    unfolding assms build_payload_fields
    by (simp only: or_None_strip or_None_nonempty simp_thms)
qed

lemma round_1_999: "py_round2 (1999 / 1000) = 2"
  by code_simp

lemma round_minus_5: "py_round2 (- 5) = - 5"
  by code_simp

lemma normalized_sample_fields:
  "p_control normalized_sample = ascii ''ABC123''"
  "p_origin normalized_sample = Some (ascii ''Rio'')"
  "p_destination normalized_sample = None"
  "p_airline normalized_sample = Some (ascii ''GOL'')"
  "p_service_cost normalized_sample = 2"
  "p_fee normalized_sample = 0"
  by (simp_all add: normalized_sample_def build_payload_fields strip_def or_None_def or_0_eq
      round_1_999 py_round2_0 ascii_def py_isspace_def)

theorem build_payload_normalizes_witness:
  "p_control normalized_sample = ascii ''ABC123'' \<and> trimmed (p_control normalized_sample) \<and>
   p_origin normalized_sample = Some (ascii ''Rio'') \<and>
   p_destination normalized_sample = None \<and>
   p_airline normalized_sample = Some (ascii ''GOL'') \<and>
   p_service_cost normalized_sample = 2 \<and>
   rounded_to_cents (1999 / 1000) (p_service_cost normalized_sample) \<and>
   p_fee normalized_sample = 0"
proof -
  have x: "or_0 (Some (1999 / 1000)) = 1999 / 1000" by (simp add: or_0_eq)
  have "\<bar>or_0 (Some (1999 / 1000))\<bar> < 2 ^ 46" unfolding x by simp
  then have "rounded_to_cents (1999 / 1000) (p_service_cost normalized_sample) \<and>
      trimmed (p_control normalized_sample)"
    using build_payload_normalizes [OF normalized_sample_def] unfolding x by blast
  then show ?thesis using normalized_sample_fields by simp
qed

text \<open>
  One input on which the claim as stated fails: the negative service cost \<open>-5\<close> comes
  out as \<open>-5\<close>, the blank control code as the empty string, and the airline with its
  leading space.
\<close>

theorem build_payload_negative_counterexample:
  "p_service_cost
     (build_payload (ascii ''SEGURO'') (ascii ''  '') (2024, 3, 2) (ascii ''ANA'')
        (ascii '' GOL'') None 3 [] [] [] [] (ascii ''RH'') (Some (- 5)) None
        (ascii ''EM ABERTO'') (ascii ''RIOMAR'') None []) = - 5 \<and>
   (- 5 :: rat) < 0 \<and> (- 5 :: rat) \<noteq> 0 \<and>
   p_control
     (build_payload (ascii ''SEGURO'') (ascii ''  '') (2024, 3, 2) (ascii ''ANA'')
        (ascii '' GOL'') None 3 [] [] [] [] (ascii ''RH'') (Some (- 5)) None
        (ascii ''EM ABERTO'') (ascii ''RIOMAR'') None []) = [] \<and>
   p_airline
     (build_payload (ascii ''SEGURO'') (ascii ''  '') (2024, 3, 2) (ascii ''ANA'')
        (ascii '' GOL'') None 3 [] [] [] [] (ascii ''RH'') (Some (- 5)) None
        (ascii ''EM ABERTO'') (ascii ''RIOMAR'') None []) = Some (ascii '' GOL'') \<and>
   py_isspace (hd (ascii '' GOL''))"
  by (simp add: build_payload_fields strip_def or_None_def or_0_eq round_minus_5 ascii_def
      py_isspace_def)

lemma gol_offered: "ascii ''GOL'' \<in> set ([] # AIRLINES)"
  by (simp add: AIRLINES_def ascii_def)

theorem optional_fields_null_or_clean_witness:
  "ascii ''GOL'' \<in> set ([] # AIRLINES) \<and>
   p_airline normalized_sample = Some (ascii ''GOL'') \<and>
   null_or_trimmed (p_airline normalized_sample) \<and>
   p_origin normalized_sample = Some (ascii ''Rio'') \<and>
   null_or_trimmed (p_origin normalized_sample) \<and>
   p_destination normalized_sample = None"
proof -
  have "null_or_trimmed (p_airline normalized_sample) \<and>
        null_or_trimmed (p_origin normalized_sample)"
    using optional_fields_null_or_clean [OF normalized_sample_def] gol_offered by blast
  then show ?thesis
    using gol_offered normalized_sample_fields by simp
qed

text \<open>An airline that is a single space is passed on as it is.\<close>

theorem selection_field_untrimmed_counterexample:
  "p_airline
     (build_payload (ascii ''SEGURO'') (ascii ''ABC123'') (2024, 3, 2) (ascii ''ANA'')
        [32] None 3 [] [] [] [] (ascii ''RH'') None None
        (ascii ''EM ABERTO'') (ascii ''RIOMAR'') None []) = Some [32] \<and>
   py_isspace 32 \<and> \<not> null_or_trimmed (Some [32])"
  by (simp add: build_payload_fields or_None_def null_or_trimmed_def trimmed_def py_isspace_def)

end
